theory Spec2Isabelle
  imports Complex_Main "HOL-Library.AList"
begin

section \<open>Host data read by the parser\<close>

text \<open>
  The CAD object model is consumed read-only.  Each host object is a value holding the
  attributes that \<open>parser.py\<close> and \<open>parts.py\<close> read.  Python floats are modelled as
  real numbers: the embedding follows the control flow and the exact arithmetic, not
  IEEE rounding.  Python dictionaries are association lists in insertion order, updated
  with \<open>AList.update\<close> (an existing key keeps its place, a new key is appended).
\<close>

datatype Point3D = Point3D real real real

datatype Vector3D = Vector3D real real real

fun asArray :: "Point3D \<Rightarrow> real list" where
  "asArray (Point3D x y z) = [x, y, z]"

fun vec_asArray :: "Vector3D \<Rightarrow> real list" where
  "vec_asArray (Vector3D x y z) = [x, y, z]"

fun asPoint :: "Vector3D \<Rightarrow> Point3D" where
  "asPoint (Vector3D x y z) = Point3D x y z"

text \<open>
  A \<open>Matrix3D\<close> is a rigid transform; the parser reads and writes it only through its
  coordinate system (origin and three axes).
\<close>

record Matrix3D =
  m_origin :: Point3D
  xAxis :: Vector3D
  yAxis :: Vector3D
  zAxis :: Vector3D

definition getAsCoordinateSystem :: "Matrix3D \<Rightarrow> Point3D \<times> Vector3D \<times> Vector3D \<times> Vector3D" where
  "getAsCoordinateSystem m = (m_origin m, xAxis m, yAxis m, zAxis m)"

definition setWithCoordinateSystem ::
  "Point3D \<Rightarrow> Vector3D \<Rightarrow> Vector3D \<Rightarrow> Vector3D \<Rightarrow> Matrix3D" where
  "setWithCoordinateSystem p x y z = \<lparr>m_origin = p, xAxis = x, yAxis = y, zAxis = z\<rparr>"

datatype Property = ColorProperty int int int int | OtherProperty

record Appearance =
  a_name :: string
  appearanceProperties :: "Property list"

datatype Material = Material (m_appearance: "Appearance option")

record BRepBody =
  b_name :: string
  b_isLightBulbOn :: bool
  b_mass :: real
  b_appearance :: "Appearance option"

record Occurrence =
  entityToken :: string
  o_name :: string
  isLightBulbOn :: bool
  isGrounded :: bool
  transform2 :: Matrix3D
  bRepBodies :: "BRepBody list"
  appearance :: "Appearance option"
  material :: "Material option"
  prop_mass :: real

text \<open>\<open>Hierarchy\<close>: one node per occurrence, with its ordered children.\<close>

datatype Hierarchy = Hierarchy (component: Occurrence) (children: "Hierarchy list")

datatype HealthState =
    HealthyFeatureHealthState
  | SuppressedFeatureHealthState
  | RolledBackFeatureHealthState
  | WarningFeatureHealthState
  | ErrorFeatureHealthState
  | UnknownFeatureHealthState

datatype JointLimits = JointLimits
  (isMinimumValueEnabled: bool) (isMaximumValueEnabled: bool)
  (minimumValue: real) (maximumValue: real)

datatype JointMotion =
    RevoluteJointMotion Vector3D JointLimits
  | SliderJointMotion Vector3D JointLimits
  | OtherJointMotion

text \<open>
  What \<open>get_origin\<close> can be handed: a joint geometry (whose \<open>origin\<close> it follows), a
  joint origin (whose \<open>geometry\<close> it follows), a vector, a point, \<open>None\<close>, an object of
  another type, or a host attribute whose access raises \<open>RuntimeError\<close>.
\<close>

datatype HostGeometry =
    JointGeometry HostGeometry
  | JointOrigin HostGeometry
  | AVector3D Vector3D
  | APoint3D Point3D
  | PyNone
  | Unexpected
  | RaisesRuntimeError

record HostJoint =
  j_name :: string
  healthState :: HealthState
  j_isValid :: bool
  jointType :: nat
  jointMotion :: JointMotion
  occurrenceOne :: Occurrence
  occurrenceTwo :: Occurrence
  geometryOrOriginOne :: HostGeometry
  geometryOrOriginTwo :: HostGeometry

record RigidGroup =
  g_name :: string
  g_occurrences :: "Occurrence list"

section \<open>Errors\<close>

text \<open>
  Modelled from the spec: \<open>utils.fatal\<close> is not among the sources; by the spec every
  fatal error aborts the run immediately with a message naming the offending entities.
  Each call site is one constructor carrying the values its message is built from.
\<close>

datatype error =
    FatalNoGrounded
  | FatalHealthState string
  | FatalNoOrigin string
  | FatalOriginsDoNotCoincide string string string "real list" "real list"
  | FatalNotIncluded "string list" "string list"
  | ValueError
  | AssertionError
  | IndexError
  | KeyError
  | RuntimeError
  | ZeroDivisionError
  | TypeError
  | FatalInverseTransform string
  | FatalCenterOfMass string
  | FatalMoments string

section \<open>Records built by the parser\<close>

record JointInfo =
  ji_name :: string
  ji_parent :: string
  ji_child :: string
  ji_type :: string
  ji_origin :: Point3D
  ji_axis :: "real list"
  ji_upper_limit :: real
  ji_lower_limit :: real

text \<open>The dataclass defaults of \<open>JointInfo\<close>.\<close>

definition JointInfo_default :: "string \<Rightarrow> string \<Rightarrow> string \<Rightarrow> JointInfo" where
  "JointInfo_default name parent child =
     \<lparr>ji_name = name, ji_parent = parent, ji_child = child, ji_type = ''fixed'',
      ji_origin = Point3D 0 0 0, ji_axis = [0, 0, 0],
      ji_upper_limit = 0, ji_lower_limit = 0\<rparr>"

record Joint =
  jt_name :: string
  jt_type :: string
  jt_xyz :: "real list"
  jt_rpy :: "real list"
  jt_parent :: string
  jt_child :: string
  jt_axis :: "real list"
  jt_upper_limit :: real
  jt_lower_limit :: real

record Link =
  l_name :: string
  l_mass :: real

record Configurator =
  c_name :: string
  scale :: real
  cm :: real
  eps :: real
  joint_order :: "string \<times> string"
  base_link :: "Occurrence option"
  component_map :: "(string \<times> Hierarchy) list"
  body_mapper :: "(string \<times> BRepBody list) list"
  links_by_token :: "(string \<times> string) list"
  links_by_name :: "(string \<times> Occurrence) list"
  joints_dict :: "(string \<times> JointInfo) list"
  color_dict :: "(string \<times> real list) list"
  material_dict :: "(string \<times> string) list"
  body_dict :: "(string \<times> BRepBody list) list"
  link_origins :: "(string \<times> Matrix3D) list"
  links :: "(string \<times> Link) list"
  joints :: "(string \<times> Joint) list"

text \<open>
  Helpers of the repository that are not among the sources (\<open>utils.format_name\<close>,
  \<open>utils.convert_german\<close>, \<open>utils.so3_to_euler\<close>), Python's \<open>str\<close> on floats and the
  answers of the host are parameters of the model.  \<open>invert\<close> is the host's inversion of
  a matrix, \<open>None\<close> when it reports failure; \<open>relative_to parent child\<close> stands for the
  child transform expressed in the inverted parent transform, \<open>None\<close> when one of the
  asserted host calls fails; the three predicates are the truth values the host returns
  from the centre-of-mass transform, from the query of the moments of inertia and from
  \<open>setWithCoordinateSystem\<close>.
\<close>

record Env =
  format_name :: "string \<Rightarrow> string"
  convert_german :: "string \<Rightarrow> string"
  so3_to_euler :: "Matrix3D \<Rightarrow> real list"
  relative_to :: "Matrix3D \<Rightarrow> Matrix3D \<Rightarrow> Matrix3D option"
  str_float :: "real \<Rightarrow> string"
  invert :: "Matrix3D \<Rightarrow> Matrix3D option"
  com_transform_ok :: "Occurrence \<Rightarrow> bool"
  moments_ok :: "Occurrence \<Rightarrow> bool"
  setWithCoordinateSystem_ok :: "Point3D \<Rightarrow> Vector3D \<Rightarrow> Vector3D \<Rightarrow> Vector3D \<Rightarrow> bool"

text \<open>
  \<open>Configurator.__init__\<close>.  \<open>root_name\<close> is the value of the \<open>name\<close> property (the
  first word of the root component's name).  The tolerance is \<open>1e-7 / scale\<close>, which
  raises for a zero scale.
\<close>

definition Configurator_init :: "string \<Rightarrow> real \<Rightarrow> real \<Rightarrow> error + Configurator" where
  "Configurator_init root_name scale0 cm0 =
     (if scale0 = 0 then Inl ZeroDivisionError
      else Inr \<lparr>c_name = root_name, scale = scale0, cm = cm0, eps = (1 / 10 ^ 7) / scale0,
                joint_order = (''p'', ''c''), base_link = None, component_map = [],
                body_mapper = [], links_by_token = [], links_by_name = [],
                joints_dict = [], color_dict = [], material_dict = [], body_dict = [],
                link_origins = [], links = [], joints = []\<rparr>)"

section \<open>Naming\<close>

text \<open>
  Modelled from the spec: \<open>utils.rename_if_duplicate\<close> is not among the sources.  By the
  spec a candidate name that already exists in the table gets a numeric suffix, the first
  unused integer, until it is unique.  The spec leaves the rendering of the suffix open;
  here it is the decimal numeral, counted from \<open>0\<close>.
\<close>

definition digit_char :: "nat \<Rightarrow> char" where
  "digit_char n = ''0123456789'' ! (n mod 10)"

fun digits :: "nat \<Rightarrow> string" where
  "digits n = (if n < 10 then [digit_char n] else digits (n div 10) @ [digit_char (n mod 10)])"

declare digits.simps [simp del]

lemma digit_char_inj: "a < 10 \<Longrightarrow> b < 10 \<Longrightarrow> digit_char a = digit_char b \<Longrightarrow> a = b"
proof -
  assume a: "a < 10" and b: "b < 10" and e: "digit_char a = digit_char b"
  have d: "distinct ''0123456789''" by simp
  have "''0123456789'' ! a = ''0123456789'' ! b" using e a b by (simp add: digit_char_def)
  then show "a = b" using nth_eq_iff_index_eq [OF d, of a b] a b by simp
qed

lemma digits_nonempty: "digits n \<noteq> []"
  by (subst digits.simps) simp

lemma digits_inj: "digits a = digits b \<Longrightarrow> a = b"
proof (induction a arbitrary: b rule: digits.induct)
  case (1 n)
  show ?case
  proof (cases "n < 10")
    case True
    show ?thesis
    proof (cases "b < 10")
      case True
      with \<open>n < 10\<close> 1(2) show ?thesis
        by (simp add: digits.simps [of n] digits.simps [of b] digit_char_inj)
    next
      case False
      with \<open>n < 10\<close> 1(2) digits_nonempty [of "b div 10"] show ?thesis
        by (simp add: digits.simps [of n] digits.simps [of b])
    qed
  next
    case False
    show ?thesis
    proof (cases "b < 10")
      case True
      with False 1(2) digits_nonempty [of "n div 10"] show ?thesis
        by (simp add: digits.simps [of n] digits.simps [of b])
    next
      case bf: False
      from False bf 1(2) have e: "digits (n div 10) = digits (b div 10)"
        and c: "digit_char (n mod 10) = digit_char (b mod 10)"
        by (simp_all add: digits.simps [of n] digits.simps [of b])
      from 1(1) [OF False e] have q: "n div 10 = b div 10" .
      from c have r: "n mod 10 = b mod 10" by (simp add: digit_char_inj)
      from q r show ?thesis by (metis div_mult_mod_eq)
    qed
  qed
qed

function rename_from :: "string \<Rightarrow> string list \<Rightarrow> nat \<Rightarrow> string" where
  "rename_from name keys i =
     (if name @ digits i \<in> set keys then rename_from name keys (Suc i) else name @ digits i)"
  by pat_completeness auto
termination
proof (relation "measure (\<lambda>(name, keys, i). card {k \<in> set keys. \<exists>j\<ge>i. k = name @ digits j})")
  show "wf (measure (\<lambda>(name, keys, i). card {k \<in> set keys. \<exists>j\<ge>i. k = name @ digits j}))"
    by simp
next
  fix name :: string and keys :: "string list" and i :: nat
  assume m: "name @ digits i \<in> set keys"
  let ?A = "{k \<in> set keys. \<exists>j\<ge>Suc i. k = name @ digits j}"
  let ?B = "{k \<in> set keys. \<exists>j\<ge>i. k = name @ digits j}"
  have "?A \<subseteq> ?B" by (blast intro: Suc_leD)
  moreover have "name @ digits i \<in> ?B" using m by auto
  moreover have "name @ digits i \<notin> ?A" by (auto dest: digits_inj)
  ultimately have "?A \<subset> ?B" by blast
  moreover have "finite ?B" by simp
  ultimately have "card ?A < card ?B" by (rule psubset_card_mono [rotated])
  then show "((name, keys, Suc i), (name, keys, i))
      \<in> measure (\<lambda>(name, keys, i). card {k \<in> set keys. \<exists>j\<ge>i. k = name @ digits j})"
    by simp
qed

declare rename_from.simps [simp del]

definition rename_if_duplicate :: "string \<Rightarrow> string list \<Rightarrow> string" where
  "rename_if_duplicate name keys = (if name \<in> set keys then rename_from name keys 0 else name)"

text \<open>
  \<open>Configurator.get_name\<close>: the cached name of a known entity token, else a fresh name
  registered in both tables.
\<close>

definition get_name :: "Occurrence \<Rightarrow> Configurator \<Rightarrow> string \<times> Configurator" where
  "get_name oc self =
     (case map_of (links_by_token self) (entityToken oc) of
        Some n \<Rightarrow> (n, self)
      | None \<Rightarrow>
          (let name = rename_if_duplicate (o_name oc) (map fst (links_by_name self))
           in (name, self\<lparr>links_by_name := AList.update name oc (links_by_name self),
                          links_by_token := AList.update (entityToken oc) name (links_by_token self)\<rparr>)))"

text \<open>Naming leaves the other tables alone.\<close>

lemma get_name_fields:
  "eps (snd (get_name oc self)) = eps self"
  "cm (snd (get_name oc self)) = cm self"
  "joints_dict (snd (get_name oc self)) = joints_dict self"
  "joint_order (snd (get_name oc self)) = joint_order self"
  by (simp_all add: get_name_def Let_def split: option.split)

section \<open>Joint extraction: \<open>Configurator._joints\<close>\<close>

fun get_origin :: "HostGeometry \<Rightarrow> error + Point3D option" where
  "get_origin (JointGeometry g) = get_origin g"
| "get_origin PyNone = Inr None"
| "get_origin (JointOrigin g) = get_origin g"
| "get_origin (AVector3D v) = Inr (Some (asPoint v))"
| "get_origin (APoint3D p) = Inr (Some p)"
| "get_origin Unexpected = Inl ValueError"
| "get_origin RaisesRuntimeError = Inl RuntimeError"

text \<open>The \<open>try\<close> around each call: a \<open>RuntimeError\<close> makes that side absent.\<close>

definition try_get_origin :: "HostGeometry \<Rightarrow> error + Point3D option" where
  "try_get_origin g = (case get_origin g of Inl RuntimeError \<Rightarrow> Inr None | r \<Rightarrow> r)"

definition joint_type_list :: "string list" where
  "joint_type_list =
     [''fixed'', ''revolute'', ''prismatic'', ''Cylinderical'', ''PinSlot'', ''Planner'', ''Ball'']"

text \<open>
  \<open>close_enough\<close> dispatches on the run-time types of its arguments: two floats, two
  sequences of equal length (an assertion otherwise), two points through their arrays.
\<close>

definition close_enough_float :: "real \<Rightarrow> real \<Rightarrow> real \<Rightarrow> bool" where
  "close_enough_float e a b = (\<bar>a - b\<bar> < e)"

definition close_enough_list :: "real \<Rightarrow> real list \<Rightarrow> real list \<Rightarrow> error + bool" where
  "close_enough_list e a b =
     (if length a \<noteq> length b then Inl AssertionError
      else Inr (list_all (\<lambda>(aa, bb). close_enough_float e aa bb) (zip a b)))"

definition close_enough :: "Configurator \<Rightarrow> Point3D \<Rightarrow> Point3D \<Rightarrow> error + bool" where
  "close_enough self a b = close_enough_list (eps self) (asArray a) (asArray b)"

text \<open>Lines 459 to 483: the axis and the limits, as (axis, upper limit, lower limit).\<close>

definition joint_axis_limits :: "Configurator \<Rightarrow> JointMotion \<Rightarrow> error + (real list \<times> real \<times> real)" where
  "joint_axis_limits self motion =
     (case motion of
        RevoluteJointMotion v lims \<Rightarrow>
          if \<not> isMaximumValueEnabled lims then Inl AssertionError
          else if \<not> isMinimumValueEnabled lims then Inl AssertionError
          else if \<bar>maximumValue lims - minimumValue lims\<bar> = 0
               then Inr (vec_asArray v, 3.14159, - 3.14159)
               else Inr (vec_asArray v, maximumValue lims, minimumValue lims)
      | SliderJointMotion v lims \<Rightarrow>
          if \<not> isMaximumValueEnabled lims then Inl AssertionError
          else if \<not> isMinimumValueEnabled lims then Inl AssertionError
          else Inr (vec_asArray v, maximumValue lims * cm self, minimumValue lims * cm self)
      | OtherJointMotion \<Rightarrow> Inr ([0, 0, 0], 0, 0))"

text \<open>Lines 451 to 456: the origin of a non-fixed joint.\<close>

definition check_origins ::
  "Configurator \<Rightarrow> HostJoint \<Rightarrow> Point3D option \<Rightarrow> Point3D option \<Rightarrow> error + Point3D" where
  "check_origins self joint geom_one_origin geom_two_origin =
     (case geom_one_origin of
        None \<Rightarrow> Inl (FatalNoOrigin (j_name joint))
      | Some g1 \<Rightarrow>
          (case geom_two_origin of
             None \<Rightarrow> Inr g1
           | Some g2 \<Rightarrow>
               (case close_enough self g2 g1 of
                  Inl e \<Rightarrow> Inl e
                | Inr True \<Rightarrow> Inr g1
                | Inr False \<Rightarrow>
                    Inl (FatalOriginsDoNotCoincide
                          (o_name (occurrenceOne joint)) (o_name (occurrenceTwo joint))
                          (j_name joint) (asArray g1) (asArray g2)))))"

text \<open>Lines 447 to 487: the record of one joint, given the resolved names and origins.\<close>

definition joint_info ::
  "Configurator \<Rightarrow> HostJoint \<Rightarrow> string \<Rightarrow> string \<Rightarrow> string \<Rightarrow> string \<Rightarrow>
   Point3D option \<Rightarrow> Point3D option \<Rightarrow> error + JointInfo" where
  "joint_info self joint joint_type name parent child geom_one_origin geom_two_origin =
     (if joint_type = ''fixed'' then Inr (JointInfo_default name parent child)
      else
        (case check_origins self joint geom_one_origin geom_two_origin of
           Inl e \<Rightarrow> Inl e
         | Inr g1 \<Rightarrow>
             (case joint_axis_limits self (jointMotion joint) of
                Inl e \<Rightarrow> Inl e
              | Inr (joint_vector, joint_limit_max, joint_limit_min) \<Rightarrow>
                  Inr \<lparr>ji_name = name, ji_parent = parent, ji_child = child,
                       ji_type = joint_type, ji_origin = g1, ji_axis = joint_vector,
                       ji_upper_limit = joint_limit_max,
                       ji_lower_limit = joint_limit_min\<rparr>)))"

text \<open>Lines 428 to 439: the resolved names of the two occurrences, as (parent, child).\<close>

definition resolved_names ::
  "HostJoint \<Rightarrow> Configurator \<Rightarrow> error + (string \<times> string \<times> Configurator)" where
  "resolved_names joint self =
     (let (occ_one_name, self1) = get_name (occurrenceOne joint) self;
          (occ_two_name, self2) = get_name (occurrenceTwo joint) self1
      in if joint_order self = (''p'', ''c'') then Inr (occ_one_name, occ_two_name, self2)
         else if joint_order self = (''c'', ''p'') then Inr (occ_two_name, occ_one_name, self2)
         else Inl ValueError)"

text \<open>
  One iteration of the loop over \<open>root.allJoints\<close>.  \<open>j_isValid\<close> is false when reading the
  joint's token, type or occurrences raises \<open>RuntimeError\<close>: the joint is then ignored.
\<close>

definition extract_joint :: "HostJoint \<Rightarrow> Configurator \<Rightarrow> error + Configurator" where
  "extract_joint joint self =
     (if healthState joint = SuppressedFeatureHealthState
         \<or> healthState joint = RolledBackFeatureHealthState then Inr self
      else if healthState joint \<noteq> HealthyFeatureHealthState
      then Inl (FatalHealthState (j_name joint))
      else if \<not> j_isValid joint then Inr self
      else if length joint_type_list \<le> jointType joint then Inl IndexError
      else
        (let joint_type = joint_type_list ! jointType joint;
             name = rename_if_duplicate (j_name joint) (map fst (joints_dict self))
         in case try_get_origin (geometryOrOriginOne joint) of
              Inl e \<Rightarrow> Inl e
            | Inr geom_one_origin \<Rightarrow>
           (case try_get_origin (geometryOrOriginTwo joint) of
              Inl e \<Rightarrow> Inl e
            | Inr geom_two_origin \<Rightarrow>
           (case resolved_names joint self of
              Inl e \<Rightarrow> Inl e
            | Inr (parent, child, self2) \<Rightarrow>
           (case joint_info self2 joint joint_type name parent child
                   geom_one_origin geom_two_origin of
              Inl e \<Rightarrow> Inl e
            | Inr info \<Rightarrow>
                Inr (self2\<lparr>joints_dict :=
                       AList.update name info (joints_dict self2)\<rparr>))))))"

fun extract_joints :: "HostJoint list \<Rightarrow> Configurator \<Rightarrow> error + Configurator" where
  "extract_joints [] self = Inr self"
| "extract_joints (joint # rest) self =
     (case extract_joint joint self of Inl e \<Rightarrow> Inl e | Inr self' \<Rightarrow> extract_joints rest self')"

text \<open>
  The loop over \<open>root.allRigidGroups\<close>: the first occurrence of a group is the parent,
  every later one the child of a fixed record.
\<close>

definition rigid_group_step :: "string \<Rightarrow> Occurrence \<Rightarrow> Occurrence \<Rightarrow> Configurator \<Rightarrow> Configurator" where
  "rigid_group_step original_group_name parent_occ occ self =
     (let rigid_group_occ_name =
            rename_if_duplicate original_group_name (map fst (joints_dict self));
          (parent_occ_name, self1) = get_name parent_occ self;
          (occ_name, self2) = get_name occ self1
      in self2\<lparr>joints_dict :=
           AList.update rigid_group_occ_name
             (JointInfo_default rigid_group_occ_name parent_occ_name occ_name)
             (joints_dict self2)\<rparr>)"

definition rigid_group :: "RigidGroup \<Rightarrow> Configurator \<Rightarrow> Configurator" where
  "rigid_group grp self =
     (case g_occurrences grp of
        [] \<Rightarrow> self
      | parent_occ # rest \<Rightarrow> fold (rigid_group_step (g_name grp) parent_occ) rest self)"

definition rigid_groups :: "RigidGroup list \<Rightarrow> Configurator \<Rightarrow> Configurator" where
  "rigid_groups groups self = fold rigid_group groups self"

text \<open>\<open>_joints\<close>: all joints, then all rigid groups.\<close>

definition joints_extraction ::
  "HostJoint list \<Rightarrow> RigidGroup list \<Rightarrow> Configurator \<Rightarrow> error + Configurator" where
  "joints_extraction allJoints allRigidGroups self =
     (case extract_joints allJoints self of
        Inl e \<Rightarrow> Inl e
      | Inr self' \<Rightarrow> Inr (rigid_groups allRigidGroups self'))"

section \<open>Serialising a joint: \<open>parts.Joint.joint_xml\<close>\<close>

text \<open>
  The element tree that \<open>joint_xml\<close> builds, before the standard library renders it as
  text.  The property also stores the formatted parent and child names back into the
  joint, so the model returns the joint as well.
\<close>

datatype Element = Element (tag: string) (attrib: "(string \<times> string) list") (subelements: "Element list")

fun join :: "string \<Rightarrow> string list \<Rightarrow> string" where
  "join sep [] = []"
| "join sep [x] = x"
| "join sep (x # y # xs) = x @ sep @ join sep (y # xs)"

definition effort_limit :: real where "effort_limit = 100"
definition vel_limit :: real where "vel_limit = 100"

definition joint_xml :: "Env \<Rightarrow> Joint \<Rightarrow> Element \<times> Joint" where
  "joint_xml env self =
     (let origin = Element ''origin''
            [(''xyz'', join '' '' (map (str_float env) (jt_xyz self))),
             (''rpy'', join '' '' (map (str_float env) (jt_rpy self)))] [];
          self1 = self\<lparr>jt_parent := format_name env (jt_parent self)\<rparr>;
          parent = Element ''parent'' [(''link'', jt_parent self1)] [];
          self2 = self1\<lparr>jt_child := format_name env (jt_child self1)\<rparr>;
          child = Element ''child'' [(''link'', jt_child self2)] [];
          axis = (if jt_type self2 = ''revolute'' \<or> jt_type self2 = ''continuous''
                     \<or> jt_type self2 = ''prismatic''
                  then [Element ''axis'' [(''xyz'', join '' '' (map (str_float env) (jt_axis self2)))] []]
                  else []);
          limit = (if jt_type self2 = ''revolute'' \<or> jt_type self2 = ''prismatic''
                   then [Element ''limit''
                           [(''upper'', str_float env (jt_upper_limit self2)),
                            (''lower'', str_float env (jt_lower_limit self2)),
                            (''effort'', str_float env effort_limit),
                            (''velocity'', str_float env vel_limit)] []]
                   else [])
      in (Element ''joint'' [(''name'', format_name env (jt_name self)), (''type'', jt_type self)]
            ([origin, parent, child] @ axis @ limit), self2))"

section \<open>The scene graph: \<open>Hierarchy\<close>\<close>

text \<open>
  Python sets of nodes are lists without repetition; \<open>pop\<close> takes the head.  The order
  in which a set is traversed is arbitrary in the source, and the results below (a table
  keyed by token, a total mass) do not depend on it.  Nodes are compared by value, which
  agrees with Python's identity as long as entity tokens are distinct.
\<close>

definition set_update :: "'a list \<Rightarrow> 'a list \<Rightarrow> 'a list" where
  "set_update s xs = s @ filter (\<lambda>x. x \<notin> set s) (remdups xs)"

definition dd_get :: "('k \<times> 'v list) list \<Rightarrow> 'k \<Rightarrow> 'v list" where
  "dd_get d k = (case map_of d k of None \<Rightarrow> [] | Some xs \<Rightarrow> xs)"

definition dd_extend :: "'k \<Rightarrow> 'v list \<Rightarrow> ('k \<times> 'v list) list \<Rightarrow> ('k \<times> 'v list) list" where
  "dd_extend k xs d = AList.update k (dd_get d k @ xs) d"

lemma set_set_update: "set (set_update s xs) = set s \<union> set xs"
  by (auto simp: set_update_def)

lemma sum_list_set_update:
  "sum_list (map f (set_update s xs)) \<le> sum_list (map f s) + sum_list (map (f :: 'a \<Rightarrow> nat) xs)"
proof -
  have a: "sum_list (map f (remdups ys)) \<le> sum_list (map f ys)" for ys
    by (induction ys) auto
  have b: "sum_list (map f (filter P ys)) \<le> sum_list (map f ys)" for P ys
    by (induction ys) auto
  have "sum_list (map f (filter (\<lambda>x. x \<notin> set s) (remdups xs))) \<le> sum_list (map f xs)"
    using a [of xs] b [of "\<lambda>x. x \<notin> set s" "remdups xs"] by linarith
  then show ?thesis by (simp add: set_update_def)
qed

lemma size_children: "sum_list (map size (children t)) < size t"
  by (cases t) (simp add: size_list_conv_sum_list)

text \<open>\<open>Hierarchy.get_all_children\<close>: the work list and the table keyed by entity token.\<close>

function all_children_loop ::
  "Hierarchy list \<Rightarrow> (string \<times> Hierarchy) list \<Rightarrow> (string \<times> Hierarchy) list" where
  "all_children_loop [] child_map = child_map"
| "all_children_loop (tmp # parent_stack) child_map =
     all_children_loop
       (if 0 < length (children tmp) then set_update parent_stack (children tmp)
        else parent_stack)
       (AList.update (entityToken (component tmp)) tmp child_map)"
  by pat_completeness auto
termination
proof (relation "measure (\<lambda>(parent_stack, child_map). sum_list (map size parent_stack))")
  show "wf (measure (\<lambda>(parent_stack, child_map). sum_list (map size parent_stack)))" by simp
next
  fix tmp :: Hierarchy and parent_stack :: "Hierarchy list"
    and child_map :: "(string \<times> Hierarchy) list"
  have "sum_list (map size (set_update parent_stack (children tmp)))
      < sum_list (map size (tmp # parent_stack))"
    using sum_list_set_update [of size parent_stack "children tmp"] size_children [of tmp]
    by simp
  moreover have "0 < size tmp" by (cases tmp) simp
  ultimately show "((if 0 < length (children tmp) then set_update parent_stack (children tmp)
         else parent_stack,
        AList.update (entityToken (component tmp)) tmp child_map),
       tmp # parent_stack, child_map)
      \<in> measure (\<lambda>(parent_stack, child_map). sum_list (map size parent_stack))"
    by simp
qed

definition get_all_children :: "Hierarchy \<Rightarrow> (string \<times> Hierarchy) list" where
  "get_all_children self = all_children_loop (set_update [] (children self)) []"

text \<open>
  \<open>Hierarchy.get_flat_body\<close>.  \<open>childs_of\<close> is the list \<open>childs\<close> the source computes twice:
  the children of every descendant that has children, less the closed set.
\<close>

definition childs_of :: "Hierarchy \<Rightarrow> Hierarchy list \<Rightarrow> Hierarchy list" where
  "childs_of self closed_set =
     filter (\<lambda>c. c \<notin> set closed_set)
       (concat (map children
          (filter (\<lambda>x. 0 < length (children x)) (map snd (get_all_children self)))))"


lemma set_childs_of: "set (childs_of self closed_set) = set (childs_of self []) - set closed_set"
  by (auto simp: childs_of_def)

lemma filter_set_update:
  "\<forall>x\<in>set xs. \<not> P x \<Longrightarrow> filter P (set_update s xs) = filter P s"
  by (simp add: set_update_def filter_empty_conv)

function flat_loop ::
  "Hierarchy \<Rightarrow> Hierarchy list \<Rightarrow> Hierarchy list \<Rightarrow> BRepBody list list \<Rightarrow> BRepBody list list" where
  "flat_loop self [] closed_set body_list = body_list"
| "flat_loop self (tmp # parent_stack) closed_set body_list =
     flat_loop self
       (if 0 < length (children tmp)
        then set_update parent_stack (childs_of self (List.insert tmp closed_set))
        else parent_stack)
       (List.insert tmp closed_set)
       (if 0 < length (bRepBodies (component tmp))
        then body_list @ [bRepBodies (component tmp)] else body_list)"
  by pat_completeness auto
termination
proof (relation "measures
    [\<lambda>(self, parent_stack, closed_set, body_list).
        card (set (childs_of self []) - set closed_set),
     \<lambda>(self, parent_stack, closed_set, body_list).
        length (filter (\<lambda>x. x \<notin> set (childs_of self closed_set)) parent_stack)]")
  show "wf (measures
    [\<lambda>(self, parent_stack, closed_set, body_list).
        card (set (childs_of self []) - set closed_set),
     \<lambda>(self, parent_stack, closed_set, body_list).
        length (filter (\<lambda>x. x \<notin> set (childs_of self closed_set)) parent_stack)])"
    by simp
next
  fix self tmp :: Hierarchy and parent_stack closed_set :: "Hierarchy list"
    and body_list :: "BRepBody list list"
  let ?D = "set (childs_of self [])"
  let ?c' = "List.insert tmp closed_set"
  let ?stack' = "if 0 < length (children tmp)
        then set_update parent_stack (childs_of self ?c') else parent_stack"
  have "card (?D - set ?c') < card (?D - set closed_set)
      \<or> card (?D - set ?c') = card (?D - set closed_set)
        \<and> length (filter (\<lambda>x. x \<notin> set (childs_of self ?c')) ?stack')
          < length (filter (\<lambda>x. x \<notin> set (childs_of self closed_set)) (tmp # parent_stack))"
  proof (cases "tmp \<in> ?D - set closed_set")
    case True
    then have "?D - set ?c' \<subset> ?D - set closed_set" by auto
    moreover have "finite (?D - set closed_set)" by simp
    ultimately have "card (?D - set ?c') < card (?D - set closed_set)"
      by (rule psubset_card_mono [rotated])
    then show ?thesis by blast
  next
    case False
    then have e: "?D - set ?c' = ?D - set closed_set" by auto
    then have s: "set (childs_of self ?c') = set (childs_of self closed_set)"
      using set_childs_of [of self ?c'] set_childs_of [of self closed_set] by simp
    have "filter (\<lambda>x. x \<notin> set (childs_of self ?c')) ?stack'
        = filter (\<lambda>x. x \<notin> set (childs_of self ?c')) parent_stack"
      by (simp add: filter_set_update)
    moreover have "tmp \<notin> set (childs_of self closed_set)"
      using False set_childs_of [of self closed_set] by simp
    ultimately have "length (filter (\<lambda>x. x \<notin> set (childs_of self ?c')) ?stack')
          < length (filter (\<lambda>x. x \<notin> set (childs_of self closed_set)) (tmp # parent_stack))"
      using s by simp
    with e show ?thesis by simp
  qed
  then show "((self, ?stack', ?c',
        if 0 < length (bRepBodies (component tmp))
        then body_list @ [bRepBodies (component tmp)] else body_list),
       self, tmp # parent_stack, closed_set, body_list)
      \<in> measures
    [\<lambda>(self, parent_stack, closed_set, body_list).
        card (set (childs_of self []) - set closed_set),
     \<lambda>(self, parent_stack, closed_set, body_list).
        length (filter (\<lambda>x. x \<notin> set (childs_of self closed_set)) parent_stack)]"
    by simp
qed

definition get_flat_body :: "Hierarchy \<Rightarrow> BRepBody list" where
  "get_flat_body self =
     (let child_set = map snd (get_all_children self);
          body_list = (if length child_set = 0 then [bRepBodies (component self)] else []);
          childs = childs_of self []
      in concat (flat_loop self (set_update [] childs) [] body_list))"

text \<open>
  The mass of \<open>_get_inertia\<close> (lines 347 to 360): the host's mass of the occurrence less
  the mass of every hidden body of the flat list.
\<close>

definition get_inertia_mass :: "Configurator \<Rightarrow> Occurrence \<Rightarrow> error + real" where
  "get_inertia_mass self oc =
     (case map_of (component_map self) (entityToken oc) of
        None \<Rightarrow> Inl KeyError
      | Some node \<Rightarrow>
          Inr (fold (\<lambda>body mass. if \<not> b_isLightBulbOn body then mass - b_mass body else mass)
                 (get_flat_body node) (prop_mass oc)))"

section \<open>Materials: \<open>__get_appearance\<close> and \<open>_materials\<close>\<close>

text \<open>
  An appearance, a material and a colour property are objects or \<open>None\<close>; the collection
  \<open>bRepBodies\<close> is true when it is not empty.  The branches are the source's
  \<open>if\<close>/\<open>elif\<close>/\<open>elif\<close> chain.  A colour is stored as its four channels divided by 255
  rather than as the formatted string.
\<close>

fun first_body_appearance :: "BRepBody list \<Rightarrow> Appearance option" where
  "first_body_appearance [] = None"
| "first_body_appearance (body # rest) =
     (case b_appearance body of Some a \<Rightarrow> Some a | None \<Rightarrow> first_body_appearance rest)"

fun first_color :: "Property list \<Rightarrow> Property option" where
  "first_color [] = None"
| "first_color (ColorProperty r g b a # rest) = Some (ColorProperty r g b a)"
| "first_color (OtherProperty # rest) = first_color rest"

definition get_appearance :: "Occurrence \<Rightarrow> (string \<times> Property) option" where
  "get_appearance occ =
     (let appearance0 =
            (case appearance occ of
               Some a \<Rightarrow> Some a
             | None \<Rightarrow>
                 if bRepBodies occ \<noteq> [] then first_body_appearance (bRepBodies occ)
                 else (case material occ of
                         Some m \<Rightarrow> m_appearance m
                       | None \<Rightarrow> None))
      in case appearance0 of
           None \<Rightarrow> None
         | Some a \<Rightarrow>
             (case first_color (appearanceProperties a) of
                None \<Rightarrow> None
              | Some prop \<Rightarrow> Some (a_name a, prop)))"

definition iterate_through_occurrences :: "Configurator \<Rightarrow> Occurrence list" where
  "iterate_through_occurrences self = map (\<lambda>(key, token). component token) (component_map self)"

definition materials_step :: "Env \<Rightarrow> Occurrence \<Rightarrow> Configurator \<Rightarrow> Configurator" where
  "materials_step env occ self =
     (let (material_name, self1) =
            (case get_appearance occ of
               Some (prop_name, ColorProperty r g b a) \<Rightarrow>
                 (let color_name = format_name env (convert_german env prop_name)
                  in (color_name,
                      self\<lparr>color_dict := AList.update color_name
                              [real_of_int r / 255, real_of_int g / 255,
                               real_of_int b / 255, real_of_int a / 255]
                              (color_dict self)\<rparr>))
             | _ \<Rightarrow> (''silver_default'', self));
          (occ_name, self2) = get_name occ self1
      in self2\<lparr>material_dict :=
           AList.update (format_name env occ_name) material_name (material_dict self2)\<rparr>)"

definition materials :: "Env \<Rightarrow> Configurator \<Rightarrow> Configurator" where
  "materials env self =
     fold (materials_step env) (iterate_through_occurrences self)
       (self\<lparr>color_dict := AList.update ''silver_default'' [0.7, 0.7, 0.7, 1]
                               (color_dict self)\<rparr>)"

section \<open>Scene configuration and the base link\<close>

text \<open>
  \<open>get_sub_bodies\<close>: for every top-level occurrence its visible bodies (an entry only when
  there is one), and for every deeper occurrence its visible bodies (always an entry).
\<close>

function sub_bodies_loop ::
  "Hierarchy list \<Rightarrow> (string \<times> BRepBody list) list \<Rightarrow> (string \<times> BRepBody list) list" where
  "sub_bodies_loop [] body_mapper0 = body_mapper0"
| "sub_bodies_loop (cur # children0) body_mapper0 =
     sub_bodies_loop (set_update children0 (children cur))
       (dd_extend (entityToken (component cur))
          (filter b_isLightBulbOn (bRepBodies (component cur))) body_mapper0)"
  by pat_completeness auto
termination
proof (relation "measure (\<lambda>(children0, body_mapper0). sum_list (map size children0))")
  show "wf (measure (\<lambda>(children0, body_mapper0). sum_list (map size children0)))" by simp
next
  fix cur :: Hierarchy and children0 :: "Hierarchy list"
    and body_mapper0 :: "(string \<times> BRepBody list) list"
  have "sum_list (map size (set_update children0 (children cur)))
      < sum_list (map size (cur # children0))"
    using sum_list_set_update [of size children0 "children cur"] size_children [of cur]
    by simp
  then show "((set_update children0 (children cur),
        dd_extend (entityToken (component cur))
          (filter b_isLightBulbOn (bRepBodies (component cur))) body_mapper0),
       cur # children0, body_mapper0)
      \<in> measure (\<lambda>(children0, body_mapper0). sum_list (map size children0))"
    by simp
qed

definition get_sub_bodies :: "Hierarchy \<Rightarrow> (string \<times> BRepBody list) list" where
  "get_sub_bodies root_node =
     fold (\<lambda>v body_mapper0.
             (let top_level_body = filter b_isLightBulbOn (bRepBodies (component v))
              in sub_bodies_loop (set_update [] (children v))
                   (if top_level_body \<noteq> []
                    then dd_extend (entityToken (component v)) top_level_body body_mapper0
                    else body_mapper0)))
          (children root_node) []"

definition get_scene_configuration :: "Hierarchy \<Rightarrow> Configurator \<Rightarrow> Configurator" where
  "get_scene_configuration root_node self =
     self\<lparr>component_map := get_all_children root_node,
          body_mapper := get_sub_bodies root_node\<rparr>"

text \<open>\<open>_base\<close>: the first grounded occurrence becomes \<open>base_link\<close>.\<close>

definition base :: "Configurator \<Rightarrow> error + Configurator" where
  "base self =
     (case find isGrounded (iterate_through_occurrences self) of
        None \<Rightarrow> Inl FatalNoGrounded
      | Some oc \<Rightarrow>
          Inr (self\<lparr>base_link := Some oc,
                    links_by_token := AList.update (entityToken oc) ''base_link'' (links_by_token self),
                    links_by_name := AList.update ''base_link'' oc (links_by_name self)\<rparr>))"

section \<open>Building links and joints: \<open>Configurator._build\<close>\<close>

text \<open>
  An exception ends the run, and the sum type keeps no state with an error.  What the
  code has written before it raises is therefore read off the stages below, each of
  which returns the state it has reached.
\<close>

text \<open>
  \<open>_get_inertia\<close>, as far as \<open>__add_link\<close> depends on it: the name, the
  corrected mass, and the three places where a failure reported by the host is fatal
  (lines 364, 366 and 377).  The look-ups raise \<open>KeyError\<close> on a missing key.
\<close>

definition get_inertia ::
  "Env \<Rightarrow> Occurrence \<Rightarrow> Configurator \<Rightarrow> error + string \<times> real \<times> Configurator" where
  "get_inertia env oc self =
     (let (occ_name, self1) = get_name oc self
      in case get_inertia_mass self1 oc of
           Inl e \<Rightarrow> Inl e
         | Inr mass \<Rightarrow>
             if invert env (transform2 oc) = None
             then Inl (FatalInverseTransform (o_name oc))
             else if \<not> com_transform_ok env oc
             then Inl (FatalCenterOfMass (o_name oc))
             else
               (case map_of (links_by_token self1) (entityToken oc) of
                  None \<Rightarrow> Inl KeyError
                | Some n \<Rightarrow>
                    (case map_of (link_origins self1) n of
                       None \<Rightarrow> Inl KeyError
                     | Some link_origin \<Rightarrow>
                         if \<not> moments_ok env oc
                         then Inl (FatalMoments (o_name oc))
                         else Inr (occ_name, mass, self1))))"

text \<open>
  \<open>__add_link\<close> (lines 509 to 528).  After the inertia, the origin of the link and the
  assertion that it can be inverted, the parser calls \<open>parts.Link\<close> without the argument
  \<open>visible\<close>, which \<open>parts.Link.__init__\<close> requires and gives no default: the call raises
  \<open>TypeError\<close>, and the assignment to \<open>self.links\<close> is never reached.  So \<open>__add_link\<close>
  raises on every input.
\<close>

definition add_link :: "Env \<Rightarrow> Occurrence \<Rightarrow> Configurator \<Rightarrow> error + Configurator" where
  "add_link env occ self =
     (case get_inertia env occ self of
        Inl e \<Rightarrow> Inl e
      | Inr (name, mass, self1) \<Rightarrow>
          (case map_of (link_origins self1) name of
             None \<Rightarrow> Inl KeyError
           | Some urdf_origin \<Rightarrow>
               (case invert env urdf_origin of
                  None \<Rightarrow> Inl AssertionError
                | Some inverted \<Rightarrow> Inl TypeError)))"

text \<open>
  Lines 588 to 609: an occurrence gets an entry of \<open>body_dict\<close> when one of its mapped
  bodies is visible.  The bookkeeping of body names for the mesh files is left out.
\<close>

definition body_dict_step :: "Env \<Rightarrow> Occurrence \<Rightarrow> Configurator \<Rightarrow> Configurator" where
  "body_dict_step env oc self =
     (let (occ_name, self1) = get_name oc self;
          oc_name = format_name env occ_name;
          body_lst = dd_get (body_mapper self1) (entityToken oc);
          visible = filter b_isLightBulbOn body_lst
      in if visible = [] then self1
         else self1\<lparr>body_dict := dd_extend oc_name visible (body_dict self1)\<rparr>)"

text \<open>Lines 611 to 614: the joints incident to each occurrence name.\<close>

definition dd_append :: "'k \<Rightarrow> 'v \<Rightarrow> ('k \<times> 'v list) list \<Rightarrow> ('k \<times> 'v list) list" where
  "dd_append k v d = AList.update k (dd_get d k @ [v]) d"

definition occurrences_of :: "(string \<times> JointInfo) list \<Rightarrow> (string \<times> string list) list" where
  "occurrences_of d =
     fold (\<lambda>(joint_name, joint_info) occurrences.
             dd_append (ji_child joint_info) joint_name
               (dd_append (ji_parent joint_info) joint_name occurrences))
          d []"

text \<open>
  Lines 626 to 636: the neighbour a joint leads to from \<open>occ_name\<close>, or \<open>None\<close> when the
  edge is skipped.
\<close>

definition neighbour :: "string list \<Rightarrow> string \<Rightarrow> JointInfo \<Rightarrow> error + string option" where
  "neighbour grounded_occ occ_name joint =
     (if ji_parent joint = occ_name
      then (if ji_child joint \<in> set grounded_occ then Inr None else Inr (Some (ji_child joint)))
      else if ji_child joint \<noteq> occ_name then Inl AssertionError
      else if ji_parent joint \<notin> set grounded_occ then Inr (Some (ji_parent joint))
      else Inr None)"

definition translation :: "Matrix3D \<Rightarrow> Vector3D" where
  "translation m = (case m_origin m of Point3D x y z \<Rightarrow> Vector3D x y z)"

text \<open>
  Lines 640 to 646: the absolute pose of a new neighbour.  For a joint that is not fixed
  the host is asked to set the coordinate system, and its answer is asserted.
\<close>

definition child_pose :: "Env \<Rightarrow> JointInfo \<Rightarrow> Matrix3D \<Rightarrow> error + Matrix3D" where
  "child_pose env joint child_origin =
     (if ji_type joint \<noteq> ''fixed''
      then (case getAsCoordinateSystem child_origin of
              (p, x, y, z) \<Rightarrow>
                if setWithCoordinateSystem_ok env (ji_origin joint) x y z
                then Inr (setWithCoordinateSystem (ji_origin joint) x y z)
                else Inl AssertionError)
      else Inr child_origin)"

text \<open>What the first stage of a visit has found.\<close>

record Discovered =
  d_joint :: JointInfo
  d_child_name :: string
  d_child_occ :: Occurrence
  d_parent_origin :: Matrix3D
  d_child_origin :: Matrix3D

text \<open>
  Lines 625 to 648: the joint, its neighbour, the two poses, and the neighbour's pose
  written to \<open>link_origins\<close>.  \<open>None\<close> is the \<open>continue\<close> of a skipped edge.
\<close>

definition discover ::
  "Env \<Rightarrow> string list \<Rightarrow> string \<Rightarrow> string \<Rightarrow> Configurator
     \<Rightarrow> error + (Configurator \<times> Discovered) option" where
  "discover env grounded_occ occ_name joint_name self =
     (case map_of (joints_dict self) joint_name of
        None \<Rightarrow> Inl KeyError
      | Some joint \<Rightarrow>
     (case neighbour grounded_occ occ_name joint of
        Inl e \<Rightarrow> Inl e
      | Inr None \<Rightarrow> Inr None
      | Inr (Some child_name) \<Rightarrow>
     (case map_of (links_by_name self) child_name of
        None \<Rightarrow> Inl KeyError
      | Some child_occ \<Rightarrow>
     (case map_of (link_origins self) occ_name of
        None \<Rightarrow> Inl KeyError
      | Some parent_origin \<Rightarrow>
     (case child_pose env joint (transform2 child_occ) of
        Inl e \<Rightarrow> Inl e
      | Inr child_origin \<Rightarrow>
          Inr (Some (self\<lparr>link_origins :=
                            AList.update child_name child_origin (link_origins self)\<rparr>,
                     \<lparr>d_joint = joint, d_child_name = child_name, d_child_occ = child_occ,
                      d_parent_origin = parent_origin,
                      d_child_origin = child_origin\<rparr>)))))))"

text \<open>
  Lines 655 to 671: the pose of the neighbour relative to \<open>occ_name\<close> (three asserted host
  calls, together \<open>relative_to\<close>) and the output joint written to \<open>self.joints\<close>.
\<close>

definition emit_joint :: "Env \<Rightarrow> string \<Rightarrow> Discovered \<Rightarrow> Configurator \<Rightarrow> error + Configurator" where
  "emit_joint env occ_name d self =
     (case relative_to env (d_parent_origin d) (d_child_origin d) of
        None \<Rightarrow> Inl AssertionError
      | Some ct \<Rightarrow>
          Inr (self\<lparr>joints := AList.update (ji_name (d_joint d))
                 \<lparr>jt_name = ji_name (d_joint d), jt_type = ji_type (d_joint d),
                  jt_xyz = map (\<lambda>c. c * scale self) (vec_asArray (translation ct)),
                  jt_rpy = so3_to_euler env ct,
                  jt_parent = occ_name, jt_child = d_child_name d,
                  jt_axis = ji_axis (d_joint d),
                  jt_upper_limit = ji_upper_limit (d_joint d),
                  jt_lower_limit = ji_lower_limit (d_joint d)\<rparr> (joints self)\<rparr>))"

text \<open>Lines 625 to 671: one edge examined, up to the output joint.\<close>

definition examine_edge ::
  "Env \<Rightarrow> string list \<Rightarrow> string \<Rightarrow> string \<Rightarrow> Configurator
     \<Rightarrow> error + (Configurator \<times> Discovered) option" where
  "examine_edge env grounded_occ occ_name joint_name self =
     (case discover env grounded_occ occ_name joint_name self of
        Inl e \<Rightarrow> Inl e
      | Inr None \<Rightarrow> Inr None
      | Inr (Some (self1, d)) \<Rightarrow>
          (case emit_joint env occ_name d self1 of
             Inl e \<Rightarrow> Inl e
           | Inr self2 \<Rightarrow> Inr (Some (self2, d))))"

text \<open>
  The body of the innermost loop (lines 625 to 673), on the configurator and the next
  frontier: the edge, then the link of the new neighbour.  \<open>grounded_occ\<close> is updated only
  after a whole pass.
\<close>

definition visit_joint ::
  "Env \<Rightarrow> string list \<Rightarrow> string \<Rightarrow> string \<Rightarrow> Configurator \<times> string list
     \<Rightarrow> error + Configurator \<times> string list" where
  "visit_joint env grounded_occ occ_name joint_name st =
     (case st of (self, new_boundary) \<Rightarrow>
      case examine_edge env grounded_occ occ_name joint_name self of
        Inl e \<Rightarrow> Inl e
      | Inr None \<Rightarrow> Inr (self, new_boundary)
      | Inr (Some (self2, d)) \<Rightarrow>
          (case add_link env (d_child_occ d) self2 of
             Inl e \<Rightarrow> Inl e
           | Inr self3 \<Rightarrow> Inr (self3, set_update new_boundary [d_child_name d])))"

fun visit_joints ::
  "Env \<Rightarrow> string list \<Rightarrow> string \<Rightarrow> string list \<Rightarrow> Configurator \<times> string list
     \<Rightarrow> error + Configurator \<times> string list" where
  "visit_joints env grounded_occ occ_name [] st = Inr st"
| "visit_joints env grounded_occ occ_name (joint_name # rest) st =
     (case visit_joint env grounded_occ occ_name joint_name st of
        Inl e \<Rightarrow> Inl e
      | Inr st' \<Rightarrow> visit_joints env grounded_occ occ_name rest st')"

fun visit_boundary ::
  "Env \<Rightarrow> (string \<times> string list) list \<Rightarrow> string list \<Rightarrow> string list
     \<Rightarrow> Configurator \<times> string list \<Rightarrow> error + Configurator \<times> string list" where
  "visit_boundary env occurrences grounded_occ [] st = Inr st"
| "visit_boundary env occurrences grounded_occ (occ_name # rest) st =
     (case visit_joints env grounded_occ occ_name (dd_get occurrences occ_name) st of
        Inl e \<Rightarrow> Inl e
      | Inr st' \<Rightarrow> visit_boundary env occurrences grounded_occ rest st')"

text \<open>
  The loop \<open>while boundary\<close> ends: every pass that finds something grounds a name that
  is an end of some joint record and was not grounded before.
\<close>

definition endpoints :: "(string \<times> JointInfo) list \<Rightarrow> string set" where
  "endpoints d = ji_parent ` snd ` set d \<union> ji_child ` snd ` set d"

lemma add_link_raises: "add_link env occ self \<noteq> Inr self'"
  by (simp add: add_link_def split: sum.split option.split prod.split)

lemma neighbour_new:
  "neighbour grounded_occ occ_name joint = Inr (Some child_name) \<Longrightarrow>
     child_name \<notin> set grounded_occ \<and> (child_name = ji_parent joint \<or> child_name = ji_child joint)"
  by (auto simp: neighbour_def split: if_splits)

lemma visit_joint_returns:
  assumes "visit_joint env grounded_occ occ_name joint_name (self, nb) = Inr (self', nb')"
  shows "self' = self \<and> nb' = nb"
proof (cases "examine_edge env grounded_occ occ_name joint_name self")
  case (Inl e)
  with assms show ?thesis by (simp add: visit_joint_def)
next
  case (Inr r)
  show ?thesis
  proof (cases r)
    case None
    with assms Inr show ?thesis by (simp add: visit_joint_def)
  next
    case (Some p)
    obtain self2 d where p: "p = (self2, d)" by (cases p)
    from assms Inr Some p add_link_raises [of env "d_child_occ d" self2] show ?thesis
      by (simp add: visit_joint_def split: sum.splits)
  qed
qed

lemma visit_joint_inv:
  assumes "visit_joint env grounded_occ occ_name joint_name (self, nb) = Inr (self', nb')"
  shows "joints_dict self' = joints_dict self
       \<and> set nb' \<subseteq> set nb \<union> (endpoints (joints_dict self) - set grounded_occ)"
  using visit_joint_returns [OF assms] by auto

lemma visit_joints_inv:
  "visit_joints env grounded_occ occ_name js (self, nb) = Inr (self', nb') \<Longrightarrow>
     joints_dict self' = joints_dict self
       \<and> set nb' \<subseteq> set nb \<union> (endpoints (joints_dict self) - set grounded_occ)"
proof (induction js arbitrary: self nb)
  case Nil
  then show ?case by simp
next
  case (Cons j js)
  from Cons.prems obtain self1 nb1 where
    v: "visit_joint env grounded_occ occ_name j (self, nb) = Inr (self1, nb1)"
    and r: "visit_joints env grounded_occ occ_name js (self1, nb1) = Inr (self', nb')"
    by (auto split: sum.splits)
  from visit_joint_inv [OF v] Cons.IH [OF r] show ?case by auto
qed

lemma visit_boundary_inv:
  "visit_boundary env occurrences grounded_occ b (self, nb) = Inr (self', nb') \<Longrightarrow>
     joints_dict self' = joints_dict self
       \<and> set nb' \<subseteq> set nb \<union> (endpoints (joints_dict self) - set grounded_occ)"
proof (induction b arbitrary: self nb)
  case Nil
  then show ?case by simp
next
  case (Cons occ_name b)
  from Cons.prems obtain self1 nb1 where
    v: "visit_joints env grounded_occ occ_name (dd_get occurrences occ_name) (self, nb) = Inr (self1, nb1)"
    and r: "visit_boundary env occurrences grounded_occ b (self1, nb1) = Inr (self', nb')"
    by (auto split: sum.splits)
  from visit_joints_inv [OF v] Cons.IH [OF r] show ?case by auto
qed

function bfs_loop ::
  "Env \<Rightarrow> (string \<times> string list) list \<Rightarrow> string list \<Rightarrow> string list \<Rightarrow> Configurator
     \<Rightarrow> error + Configurator \<times> string list" where
  "bfs_loop env occurrences grounded_occ boundary self =
     (if boundary = [] then Inr (self, grounded_occ)
      else
        (case visit_boundary env occurrences grounded_occ boundary (self, []) of
           Inl e \<Rightarrow> Inl e
         | Inr (self', new_boundary) \<Rightarrow>
             bfs_loop env occurrences (set_update grounded_occ new_boundary) new_boundary self'))"
  by pat_completeness auto
termination
proof (relation "measure (\<lambda>(env, occurrences, grounded_occ, boundary, self).
    if boundary = [] then 0
    else Suc (card (endpoints (joints_dict self) - set grounded_occ)))")
  show "wf (measure (\<lambda>(env, occurrences, grounded_occ, boundary, self).
    if boundary = [] then 0
    else Suc (card (endpoints (joints_dict self) - set grounded_occ))))" by simp
next
  fix env :: Env and occurrences :: "(string \<times> string list) list"
    and grounded_occ boundary :: "string list" and self :: Configurator
    and x2 :: "Configurator \<times> string list" and self' :: Configurator and new_boundary :: "string list"
  assume b: "boundary \<noteq> []"
    and v: "visit_boundary env occurrences grounded_occ boundary (self, []) = Inr x2"
    and x: "(self', new_boundary) = x2"
  from v x have v': "visit_boundary env occurrences grounded_occ boundary (self, []) = Inr (self', new_boundary)"
    by simp
  from visit_boundary_inv [OF v'] have j: "joints_dict self' = joints_dict self"
    and n: "set new_boundary \<subseteq> endpoints (joints_dict self) - set grounded_occ" by auto
  let ?E = "endpoints (joints_dict self)"
  have fin: "finite (?E - set grounded_occ)" by (simp add: endpoints_def)
  have "new_boundary \<noteq> [] \<Longrightarrow>
      card (?E - set (set_update grounded_occ new_boundary)) < card (?E - set grounded_occ)"
  proof -
    assume "new_boundary \<noteq> []"
    then obtain y where y: "y \<in> set new_boundary" by (cases new_boundary) auto
    with n have "y \<in> ?E - set grounded_occ" by auto
    moreover have "y \<notin> ?E - set (set_update grounded_occ new_boundary)"
      using y by (simp add: set_set_update)
    moreover have "?E - set (set_update grounded_occ new_boundary) \<subseteq> ?E - set grounded_occ"
      by (auto simp: set_set_update)
    ultimately have "?E - set (set_update grounded_occ new_boundary) \<subset> ?E - set grounded_occ"
      by blast
    with fin show ?thesis by (rule psubset_card_mono)
  qed
  with b j show "((env, occurrences, set_update grounded_occ new_boundary, new_boundary, self'),
        env, occurrences, grounded_occ, boundary, self)
       \<in> measure (\<lambda>(env, occurrences, grounded_occ, boundary, self).
    if boundary = [] then 0
    else Suc (card (endpoints (joints_dict self) - set grounded_occ)))"
    by simp
qed

declare bfs_loop.simps [simp del]

text \<open>Lines 678 to 693: the final check of \<open>_build\<close>.\<close>

definition sanity_check :: "Configurator \<Rightarrow> string list \<Rightarrow> error + Configurator" where
  "sanity_check self grounded_occ =
     (let checked = filter (\<lambda>component0. isLightBulbOn component0
                              \<and> map_of (body_dict self) (c_name self) \<noteq> None)
                      (iterate_through_occurrences self);
          not_in_joints = remdups (map o_name
             (filter (\<lambda>component0.
                        map_of (links_by_token self) (entityToken component0) = None) checked));
          unreachable = remdups (map o_name
             (filter (\<lambda>component0.
                        case map_of (links_by_token self) (entityToken component0) of
                          None \<Rightarrow> False
                        | Some n \<Rightarrow> n \<notin> set grounded_occ) checked))
      in if 0 < length not_in_joints \<or> 0 < length unreachable
         then Inl (FatalNotIncluded not_in_joints unreachable)
         else Inr self)"

text \<open>Lines 573 to 618 of \<open>_build\<close>: the body table and the pose of the base link.\<close>

definition build_tables :: "Env \<Rightarrow> Configurator \<Rightarrow> error + Configurator" where
  "build_tables env self =
     (let self1 = fold (body_dict_step env) (iterate_through_occurrences self)
                    (self\<lparr>body_dict := [], link_origins := []\<rparr>)
      in case base_link self1 of
           None \<Rightarrow> Inl AssertionError
         | Some bl \<Rightarrow>
             Inr (self1\<lparr>link_origins :=
                    AList.update ''base_link'' (transform2 bl) (link_origins self1)\<rparr>))"

text \<open>\<open>_build\<close>: the tables, the link of the base, the traversal, the final check.\<close>

definition build :: "Env \<Rightarrow> Configurator \<Rightarrow> error + Configurator" where
  "build env self =
     (case build_tables env self of
        Inl e \<Rightarrow> Inl e
      | Inr self1 \<Rightarrow>
     (case base_link self1 of
        None \<Rightarrow> Inl AssertionError
      | Some bl \<Rightarrow>
     (case add_link env bl self1 of
        Inl e \<Rightarrow> Inl e
      | Inr self2 \<Rightarrow>
     (case bfs_loop env (occurrences_of (joints_dict self1)) [''base_link''] [''base_link'']
             self2 of
        Inl e \<Rightarrow> Inl e
      | Inr (self3, grounded) \<Rightarrow> sanity_check self3 grounded))))"

text \<open>\<open>parse\<close>, after \<open>get_scene_configuration\<close>.\<close>

definition parse ::
  "Env \<Rightarrow> HostJoint list \<Rightarrow> RigidGroup list \<Rightarrow> Configurator \<Rightarrow> error + Configurator" where
  "parse env allJoints allRigidGroups self =
     (case base self of
        Inl e \<Rightarrow> Inl e
      | Inr self1 \<Rightarrow>
     (case joints_extraction allJoints allRigidGroups self1 of
        Inl e \<Rightarrow> Inl e
      | Inr self2 \<Rightarrow> build env (materials env self2)))"

section \<open>Example data\<close>

text \<open>Concrete inputs on which the theorems below are instantiated.\<close>

definition identity_matrix :: Matrix3D where
  "identity_matrix = \<lparr>m_origin = Point3D 0 0 0, xAxis = Vector3D 1 0 0,
                       yAxis = Vector3D 0 1 0, zAxis = Vector3D 0 0 1\<rparr>"

definition ex_occ :: "string \<Rightarrow> string \<Rightarrow> Occurrence" where
  "ex_occ token nm =
     \<lparr>entityToken = token, o_name = nm, isLightBulbOn = True, isGrounded = False,
      transform2 = identity_matrix, bRepBodies = [], appearance = None, material = None,
      prop_mass = 0\<rparr>"

definition ex_self :: Configurator where
  "ex_self =
     \<lparr>c_name = ''robot'', scale = 1, cm = 1 / 100, eps = 1 / 10 ^ 7,
      joint_order = (''p'', ''c''), base_link = None, component_map = [],
      body_mapper = [], links_by_token = [], links_by_name = [],
      joints_dict = [], color_dict = [], material_dict = [], body_dict = [],
      link_origins = [], links = [], joints = []\<rparr>"

definition ex_joint :: "nat \<Rightarrow> JointMotion \<Rightarrow> HostGeometry \<Rightarrow> HostGeometry \<Rightarrow> HostJoint" where
  "ex_joint ty motion one two =
     \<lparr>j_name = ''hinge'', healthState = HealthyFeatureHealthState, j_isValid = True,
      jointType = ty, jointMotion = motion,
      occurrenceOne = ex_occ ''t1'' ''arm'', occurrenceTwo = ex_occ ''t2'' ''body'',
      geometryOrOriginOne = one, geometryOrOriginTwo = two\<rparr>"

definition ex_group :: RigidGroup where
  "ex_group = \<lparr>g_name = ''grp'',
      g_occurrences = [ex_occ ''tA'' ''A'', ex_occ ''tB'' ''B'', ex_occ ''tC'' ''C'']\<rparr>"

definition ex_str :: "real \<Rightarrow> string" where
  "ex_str x = (if x = 0 then ''0.0'' else if x = 100 then ''100.0'' else ''1.5'')"

text \<open>
  A host that answers every query with success; inversion and relative poses are given
  for the identity, the only parent pose of the examples.
\<close>

definition ex_env :: Env where
  "ex_env = \<lparr>format_name = id, convert_german = id, so3_to_euler = (\<lambda>m. [0, 0, 0]),
             relative_to = (\<lambda>p c. if p = identity_matrix then Some c else None),
             str_float = ex_str,
             invert = (\<lambda>m. if m = identity_matrix then Some identity_matrix else None),
             com_transform_ok = (\<lambda>oc. True), moments_ok = (\<lambda>oc. True),
             setWithCoordinateSystem_ok = (\<lambda>p x y z. True)\<rparr>"

definition ex_out_joint :: "string \<Rightarrow> Joint" where
  "ex_out_joint ty =
     \<lparr>jt_name = ''hinge'', jt_type = ty, jt_xyz = [0, 0, 0], jt_rpy = [0, 0, 0],
      jt_parent = ''base_link'', jt_child = ''arm'', jt_axis = [0, 0, 0],
      jt_upper_limit = 0, jt_lower_limit = 0\<rparr>"

definition ex_body :: "string \<Rightarrow> bool \<Rightarrow> real \<Rightarrow> BRepBody" where
  "ex_body nm visible m =
     \<lparr>b_name = nm, b_isLightBulbOn = visible, b_mass = m, b_appearance = None\<rparr>"

definition C5_arm :: Occurrence where
  "C5_arm = (ex_occ ''t_arm'' ''arm'')
      \<lparr>bRepBodies := [ex_body ''shell'' True 3, ex_body ''ballast'' False 2], prop_mass := 5\<rparr>"

definition C5_tree :: Hierarchy where
  "C5_tree = Hierarchy C5_arm [Hierarchy (ex_occ ''t_bolt'' ''bolt'') []]"


definition C5_leaf :: Hierarchy where
  "C5_leaf = Hierarchy C5_arm []"

definition ex_steel :: Appearance where
  "ex_steel = \<lparr>a_name = ''Steel'', appearanceProperties = [OtherProperty, ColorProperty 51 102 153 255]\<rparr>"

definition C9_occ :: "BRepBody list \<Rightarrow> Occurrence" where
  "C9_occ bodies = (ex_occ ''t_arm'' ''arm'')
      \<lparr>bRepBodies := bodies, material := Some (Material (Some ex_steel))\<rparr>"

text \<open>The run of \<open>parse\<close> up to line 618, before the first link is built.\<close>

definition tables_of ::
  "Env \<Rightarrow> HostJoint list \<Rightarrow> RigidGroup list \<Rightarrow> Configurator \<Rightarrow> error + Configurator" where
  "tables_of env allJoints allRigidGroups self =
     (case base self of
        Inl e \<Rightarrow> Inl e
      | Inr self1 \<Rightarrow>
     (case joints_extraction allJoints allRigidGroups self1 of
        Inl e \<Rightarrow> Inl e
      | Inr self2 \<Rightarrow> build_tables env (materials env self2)))"

text \<open>
  Two assemblies: a grounded base with an isolated occurrence, with the tables its run
  has built before the first link; and a grounded base with a hinged arm.
\<close>

definition C4_base :: Occurrence where
  "C4_base = (ex_occ ''t_base'' ''base'')
      \<lparr>isGrounded := True, bRepBodies := [ex_body ''plate'' True 1], prop_mass := 1\<rparr>"

definition C4_lonely :: Occurrence where
  "C4_lonely = (ex_occ ''t_lonely'' ''lonely'')
      \<lparr>bRepBodies := [ex_body ''block'' True 1], prop_mass := 1\<rparr>"

definition C4_root :: Hierarchy where
  "C4_root = Hierarchy (ex_occ ''t_root'' ''robot'') [Hierarchy C4_base [], Hierarchy C4_lonely []]"

definition C4_state :: "string \<Rightarrow> Configurator" where
  "C4_state nm = ex_self
     \<lparr>c_name := nm,
      base_link := Some C4_base,
      component_map := [(''t_base'', Hierarchy C4_base []), (''t_lonely'', Hierarchy C4_lonely [])],
      body_mapper := [(''t_base'', [ex_body ''plate'' True 1]),
                      (''t_lonely'', [ex_body ''block'' True 1])],
      links_by_token := [(''t_base'', ''base_link''), (''t_lonely'', ''lonely'')],
      links_by_name := [(''base_link'', C4_base), (''lonely'', C4_lonely)],
      color_dict := [(''silver_default'', [0.7, 0.7, 0.7, 1])],
      material_dict := [(''base_link'', ''silver_default''), (''lonely'', ''silver_default'')],
      body_dict := [(''base_link'', [ex_body ''plate'' True 1]),
                    (''lonely'', [ex_body ''block'' True 1])],
      link_origins := [(''base_link'', identity_matrix)]\<rparr>"




section \<open>Facts about naming\<close>

lemma rename_from_fresh: "rename_from name keys i \<notin> set keys"
  by (induction name keys i rule: rename_from.induct) (subst rename_from.simps, simp)

lemma rename_if_duplicate_fresh: "rename_if_duplicate name keys \<notin> set keys"
  by (simp add: rename_if_duplicate_def rename_from_fresh)

section \<open>Joint extraction: the origin check, the limits and the stored origin\<close>

lemma check_origins_cong:
  "eps s = eps s' \<Longrightarrow> check_origins s joint g1 g2 = check_origins s' joint g1 g2"
  by (simp add: check_origins_def close_enough_def split: option.split)

lemma joint_axis_limits_cong:
  "cm s = cm s' \<Longrightarrow> joint_axis_limits s m = joint_axis_limits s' m"
  by (simp add: joint_axis_limits_def split: JointMotion.split)

lemma joint_info_cong:
  "eps s = eps s' \<Longrightarrow> cm s = cm s' \<Longrightarrow>
   joint_info s joint ty name parent child g1 g2 = joint_info s' joint ty name parent child g1 g2"
  using check_origins_cong [of s s'] joint_axis_limits_cong [of s s']
  by (simp add: joint_info_def split: sum.split)

lemma resolved_names_fields:
  "resolved_names joint self = Inr (parent, child, self2) \<Longrightarrow>
     eps self2 = eps self \<and> cm self2 = cm self \<and> joints_dict self2 = joints_dict self"
  by (auto simp: resolved_names_def Let_def split: prod.splits if_splits
       dest!: arg_cong [where f = snd] simp: get_name_fields)

lemma extract_joint_processed:
  assumes "healthState joint = HealthyFeatureHealthState" "j_isValid joint"
    and "jointType joint < length joint_type_list"
    and "try_get_origin (geometryOrOriginOne joint) = Inr g1"
    and "try_get_origin (geometryOrOriginTwo joint) = Inr g2"
    and "resolved_names joint self = Inr (parent, child, self2)"
  shows "extract_joint joint self =
     (case joint_info self joint (joint_type_list ! jointType joint)
             (rename_if_duplicate (j_name joint) (map fst (joints_dict self)))
             parent child g1 g2 of
        Inl e \<Rightarrow> Inl e
      | Inr info \<Rightarrow> Inr (self2\<lparr>joints_dict := AList.update
           (rename_if_duplicate (j_name joint) (map fst (joints_dict self))) info (joints_dict self)\<rparr>))"
proof -
  from resolved_names_fields [OF assms(6)] have f: "eps self2 = eps self" "cm self2 = cm self"
    "joints_dict self2 = joints_dict self" by simp_all
  have ji: "\<And>ty name p c. joint_info self2 joint ty name p c g1 g2 = joint_info self joint ty name p c g1 g2"
    using joint_info_cong [OF f(1) f(2)] .
  show ?thesis
    using assms
    by (simp add: extract_joint_def Let_def ji f split: sum.split)
qed

lemma extract_joint_success:
  assumes "healthState joint = HealthyFeatureHealthState" "j_isValid joint"
    and "extract_joint joint self = Inr self'"
  shows "\<exists>g1 g2 parent child self2 info.
      jointType joint < length joint_type_list
    \<and> try_get_origin (geometryOrOriginOne joint) = Inr g1
    \<and> try_get_origin (geometryOrOriginTwo joint) = Inr g2
    \<and> resolved_names joint self = Inr (parent, child, self2)
    \<and> joint_info self joint (joint_type_list ! jointType joint)
             (rename_if_duplicate (j_name joint) (map fst (joints_dict self)))
             parent child g1 g2 = Inr info
    \<and> self' = self2\<lparr>joints_dict := AList.update
           (rename_if_duplicate (j_name joint) (map fst (joints_dict self))) info (joints_dict self)\<rparr>"
proof -
  from assms have t: "jointType joint < length joint_type_list"
    by (simp add: extract_joint_def split: if_splits)
  from assms t obtain g1 where g1: "try_get_origin (geometryOrOriginOne joint) = Inr g1"
    by (cases "try_get_origin (geometryOrOriginOne joint)") (simp_all add: extract_joint_def Let_def)
  from assms t g1 obtain g2 where g2: "try_get_origin (geometryOrOriginTwo joint) = Inr g2"
    by (cases "try_get_origin (geometryOrOriginTwo joint)") (simp_all add: extract_joint_def Let_def)
  from assms t g1 g2 obtain parent child self2 where
    r: "resolved_names joint self = Inr (parent, child, self2)"
    by (cases "resolved_names joint self") (auto simp add: extract_joint_def Let_def)
  from extract_joint_processed [OF assms(1,2) t g1 g2 r] assms(3)
  show ?thesis using t g1 g2 r by (auto split: sum.splits)
qed

lemma joint_axis_limits_error: "joint_axis_limits s m = Inl e \<Longrightarrow> e = AssertionError"
  by (auto simp: joint_axis_limits_def split: JointMotion.splits if_splits)

lemma close_enough_points:
  "close_enough s (Point3D x2 y2 z2) (Point3D x1 y1 z1) =
     Inr (\<bar>x2 - x1\<bar> < eps s \<and> \<bar>y2 - y1\<bar> < eps s \<and> \<bar>z2 - z1\<bar> < eps s)"
  by (simp add: close_enough_def close_enough_list_def close_enough_float_def)

lemma check_origins_points:
  "check_origins s joint (Some (Point3D x1 y1 z1)) (Some (Point3D x2 y2 z2)) =
     (if \<bar>x2 - x1\<bar> < eps s \<and> \<bar>y2 - y1\<bar> < eps s \<and> \<bar>z2 - z1\<bar> < eps s
      then Inr (Point3D x1 y1 z1)
      else Inl (FatalOriginsDoNotCoincide (o_name (occurrenceOne joint))
                 (o_name (occurrenceTwo joint)) (j_name joint) [x1, y1, z1] [x2, y2, z2]))"
  by (auto simp: check_origins_def close_enough_points)

text \<open>
  Claim C3.  For a healthy, readable joint whose two origins were resolved to \<open>g1\<close> and
  \<open>g2\<close> (each possibly absent): a non-fixed joint with no first origin aborts with the
  fatal "no origin" error; a non-fixed joint with both origins aborts with the fatal error
  carrying both occurrence names, the joint name and both origins exactly when some axis
  differs by \<open>eps\<close> or more; a non-fixed joint whose two origins agree on every axis
  within \<open>eps\<close>, or whose second origin is absent, is accepted and stored with the first
  origin as soon as its axis and limits can be read; a fixed joint is recorded whatever
  its origins are; and \<open>eps\<close> is \<open>1e-7\<close> divided by the scale.
\<close>

theorem C3_origin_check:
  assumes "healthState joint = HealthyFeatureHealthState" "j_isValid joint"
    and "jointType joint < length joint_type_list"
    and "try_get_origin (geometryOrOriginOne joint) = Inr g1"
    and "try_get_origin (geometryOrOriginTwo joint) = Inr g2"
    and "resolved_names joint self = Inr (parent, child, self2)"
  shows
   "(joint_type_list ! jointType joint \<noteq> ''fixed'' \<and> g1 = None \<longrightarrow>
       extract_joint joint self = Inl (FatalNoOrigin (j_name joint)))
  \<and> (\<forall>x1 y1 z1 x2 y2 z2.
       joint_type_list ! jointType joint \<noteq> ''fixed''
       \<and> g1 = Some (Point3D x1 y1 z1) \<and> g2 = Some (Point3D x2 y2 z2) \<longrightarrow>
       (extract_joint joint self =
          Inl (FatalOriginsDoNotCoincide (o_name (occurrenceOne joint))
                 (o_name (occurrenceTwo joint)) (j_name joint) [x1, y1, z1] [x2, y2, z2]))
        = (\<not> (\<bar>x2 - x1\<bar> < eps self \<and> \<bar>y2 - y1\<bar> < eps self \<and> \<bar>z2 - z1\<bar> < eps self)))
  \<and> (\<forall>x1 y1 z1 x2 y2 z2 v mx mn.
       joint_type_list ! jointType joint \<noteq> ''fixed''
       \<and> g1 = Some (Point3D x1 y1 z1) \<and> g2 = Some (Point3D x2 y2 z2)
       \<and> \<bar>x2 - x1\<bar> < eps self \<and> \<bar>y2 - y1\<bar> < eps self \<and> \<bar>z2 - z1\<bar> < eps self
       \<and> joint_axis_limits self (jointMotion joint) = Inr (v, mx, mn) \<longrightarrow>
       extract_joint joint self =
         Inr (self2\<lparr>joints_dict := AList.update
           (rename_if_duplicate (j_name joint) (map fst (joints_dict self)))
           \<lparr>ji_name = rename_if_duplicate (j_name joint) (map fst (joints_dict self)),
            ji_parent = parent, ji_child = child,
            ji_type = joint_type_list ! jointType joint,
            ji_origin = Point3D x1 y1 z1, ji_axis = v,
            ji_upper_limit = mx, ji_lower_limit = mn\<rparr> (joints_dict self)\<rparr>))
  \<and> (\<forall>p1 v mx mn.
       joint_type_list ! jointType joint \<noteq> ''fixed''
       \<and> g1 = Some p1 \<and> g2 = None
       \<and> joint_axis_limits self (jointMotion joint) = Inr (v, mx, mn) \<longrightarrow>
       extract_joint joint self =
         Inr (self2\<lparr>joints_dict := AList.update
           (rename_if_duplicate (j_name joint) (map fst (joints_dict self)))
           \<lparr>ji_name = rename_if_duplicate (j_name joint) (map fst (joints_dict self)),
            ji_parent = parent, ji_child = child,
            ji_type = joint_type_list ! jointType joint,
            ji_origin = p1, ji_axis = v,
            ji_upper_limit = mx, ji_lower_limit = mn\<rparr> (joints_dict self)\<rparr>))
  \<and> (joint_type_list ! jointType joint = ''fixed'' \<longrightarrow>
       extract_joint joint self =
         Inr (self2\<lparr>joints_dict := AList.update
           (rename_if_duplicate (j_name joint) (map fst (joints_dict self)))
           (JointInfo_default (rename_if_duplicate (j_name joint) (map fst (joints_dict self)))
              parent child) (joints_dict self)\<rparr>))
  \<and> (\<forall>root_name scale0 cm0 c. Configurator_init root_name scale0 cm0 = Inr c \<longrightarrow>
        eps c = (1 / 10 ^ 7) / scale0)"
proof -
  note e = extract_joint_processed [OF assms]
  have a: "joint_type_list ! jointType joint \<noteq> ''fixed'' \<and> g1 = None \<longrightarrow>
       extract_joint joint self = Inl (FatalNoOrigin (j_name joint))"
    by (simp add: e joint_info_def check_origins_def)
  have b: "\<forall>x1 y1 z1 x2 y2 z2.
       joint_type_list ! jointType joint \<noteq> ''fixed''
       \<and> g1 = Some (Point3D x1 y1 z1) \<and> g2 = Some (Point3D x2 y2 z2) \<longrightarrow>
       (extract_joint joint self =
          Inl (FatalOriginsDoNotCoincide (o_name (occurrenceOne joint))
                 (o_name (occurrenceTwo joint)) (j_name joint) [x1, y1, z1] [x2, y2, z2]))
        = (\<not> (\<bar>x2 - x1\<bar> < eps self \<and> \<bar>y2 - y1\<bar> < eps self \<and> \<bar>z2 - z1\<bar> < eps self))"
    by (auto simp: e joint_info_def check_origins_points
          split: sum.splits dest: joint_axis_limits_error)
  have acc2: "\<forall>x1 y1 z1 x2 y2 z2 v mx mn.
       joint_type_list ! jointType joint \<noteq> ''fixed''
       \<and> g1 = Some (Point3D x1 y1 z1) \<and> g2 = Some (Point3D x2 y2 z2)
       \<and> \<bar>x2 - x1\<bar> < eps self \<and> \<bar>y2 - y1\<bar> < eps self \<and> \<bar>z2 - z1\<bar> < eps self
       \<and> joint_axis_limits self (jointMotion joint) = Inr (v, mx, mn) \<longrightarrow>
       extract_joint joint self =
         Inr (self2\<lparr>joints_dict := AList.update
           (rename_if_duplicate (j_name joint) (map fst (joints_dict self)))
           \<lparr>ji_name = rename_if_duplicate (j_name joint) (map fst (joints_dict self)),
            ji_parent = parent, ji_child = child,
            ji_type = joint_type_list ! jointType joint,
            ji_origin = Point3D x1 y1 z1, ji_axis = v,
            ji_upper_limit = mx, ji_lower_limit = mn\<rparr> (joints_dict self)\<rparr>)"
    by (simp add: e joint_info_def check_origins_points)
  have acc1: "\<forall>p1 v mx mn.
       joint_type_list ! jointType joint \<noteq> ''fixed''
       \<and> g1 = Some p1 \<and> g2 = None
       \<and> joint_axis_limits self (jointMotion joint) = Inr (v, mx, mn) \<longrightarrow>
       extract_joint joint self =
         Inr (self2\<lparr>joints_dict := AList.update
           (rename_if_duplicate (j_name joint) (map fst (joints_dict self)))
           \<lparr>ji_name = rename_if_duplicate (j_name joint) (map fst (joints_dict self)),
            ji_parent = parent, ji_child = child,
            ji_type = joint_type_list ! jointType joint,
            ji_origin = p1, ji_axis = v,
            ji_upper_limit = mx, ji_lower_limit = mn\<rparr> (joints_dict self)\<rparr>)"
    by (simp add: e joint_info_def check_origins_def)
  have c: "joint_type_list ! jointType joint = ''fixed'' \<longrightarrow>
       extract_joint joint self =
         Inr (self2\<lparr>joints_dict := AList.update
           (rename_if_duplicate (j_name joint) (map fst (joints_dict self)))
           (JointInfo_default (rename_if_duplicate (j_name joint) (map fst (joints_dict self)))
              parent child) (joints_dict self)\<rparr>)"
    by (simp add: e joint_info_def)
  have d: "\<forall>root_name scale0 cm0 c. Configurator_init root_name scale0 cm0 = Inr c \<longrightarrow>
        eps c = (1 / 10 ^ 7) / scale0"
    by (auto simp: Configurator_init_def split: if_splits)
  from a b acc2 acc1 c d show ?thesis by blast
qed

lemma ex_self_init: "Configurator_init ''robot'' 1 (1 / 100) = Inr ex_self"
  by (simp add: Configurator_init_def ex_self_def)

lemma ex_resolved_names:
  "resolved_names (ex_joint ty motion one two) ex_self =
     Inr (''arm'', ''body'',
          ex_self\<lparr>links_by_name := [(''arm'', ex_occ ''t1'' ''arm''), (''body'', ex_occ ''t2'' ''body'')],
                  links_by_token := [(''t1'', ''arm''), (''t2'', ''body'')]\<rparr>)"
  by (simp add: resolved_names_def get_name_def ex_joint_def ex_self_def ex_occ_def
        rename_if_duplicate_def Let_def)

theorem C3_origin_check_witness:
  "extract_joint (ex_joint 1 OtherJointMotion RaisesRuntimeError (APoint3D (Point3D 0 0 0))) ex_self
     = Inl (FatalNoOrigin ''hinge'')
   \<and> extract_joint (ex_joint 1 OtherJointMotion (APoint3D (Point3D 0 0 0))
         (JointGeometry (APoint3D (Point3D 0 0 (1 / 100))))) ex_self
     = Inl (FatalOriginsDoNotCoincide ''arm'' ''body'' ''hinge'' [0, 0, 0] [0, 0, 1 / 100])
   \<and> extract_joint (ex_joint 1 OtherJointMotion (APoint3D (Point3D 0 0 0))
         (JointGeometry (APoint3D (Point3D 0 0 (1 / 10 ^ 9))))) ex_self
     = Inr (ex_self\<lparr>links_by_name := [(''arm'', ex_occ ''t1'' ''arm''), (''body'', ex_occ ''t2'' ''body'')],
                  links_by_token := [(''t1'', ''arm''), (''t2'', ''body'')],
                  joints_dict := [(''hinge'',
                     \<lparr>ji_name = ''hinge'', ji_parent = ''arm'', ji_child = ''body'',
                      ji_type = ''revolute'', ji_origin = Point3D 0 0 0, ji_axis = [0, 0, 0],
                      ji_upper_limit = 0, ji_lower_limit = 0\<rparr>)]\<rparr>)
   \<and> extract_joint (ex_joint 0 OtherJointMotion PyNone PyNone) ex_self
     = Inr (ex_self\<lparr>links_by_name := [(''arm'', ex_occ ''t1'' ''arm''), (''body'', ex_occ ''t2'' ''body'')],
                  links_by_token := [(''t1'', ''arm''), (''t2'', ''body'')],
                  joints_dict := [(''hinge'', JointInfo_default ''hinge'' ''arm'' ''body'')]\<rparr>)
   \<and> eps ex_self = (1 / 10 ^ 7) / 1"
proof -
  have a: "extract_joint (ex_joint 1 OtherJointMotion RaisesRuntimeError (APoint3D (Point3D 0 0 0))) ex_self
     = Inl (FatalNoOrigin ''hinge'')"
    using C3_origin_check [of "ex_joint 1 OtherJointMotion RaisesRuntimeError (APoint3D (Point3D 0 0 0))"
        None "Some (Point3D 0 0 0)" ex_self, OF _ _ _ _ _ ex_resolved_names]
    by (simp add: ex_joint_def try_get_origin_def joint_type_list_def)
  have b: "extract_joint (ex_joint 1 OtherJointMotion (APoint3D (Point3D 0 0 0))
         (JointGeometry (APoint3D (Point3D 0 0 (1 / 100))))) ex_self
     = Inl (FatalOriginsDoNotCoincide ''arm'' ''body'' ''hinge'' [0, 0, 0] [0, 0, 1 / 100])"
    using C3_origin_check [of "ex_joint 1 OtherJointMotion (APoint3D (Point3D 0 0 0))
         (JointGeometry (APoint3D (Point3D 0 0 (1 / 100))))"
        "Some (Point3D 0 0 0)" "Some (Point3D 0 0 (1 / 100))" ex_self, OF _ _ _ _ _ ex_resolved_names]
    by (simp add: ex_joint_def try_get_origin_def joint_type_list_def ex_self_def ex_occ_def)
  have c: "extract_joint (ex_joint 1 OtherJointMotion (APoint3D (Point3D 0 0 0))
         (JointGeometry (APoint3D (Point3D 0 0 (1 / 10 ^ 9))))) ex_self
     = Inr (ex_self\<lparr>links_by_name := [(''arm'', ex_occ ''t1'' ''arm''), (''body'', ex_occ ''t2'' ''body'')],
                  links_by_token := [(''t1'', ''arm''), (''t2'', ''body'')],
                  joints_dict := [(''hinge'',
                     \<lparr>ji_name = ''hinge'', ji_parent = ''arm'', ji_child = ''body'',
                      ji_type = ''revolute'', ji_origin = Point3D 0 0 0, ji_axis = [0, 0, 0],
                      ji_upper_limit = 0, ji_lower_limit = 0\<rparr>)]\<rparr>)"
  proof -
    let ?J = "ex_joint 1 OtherJointMotion (APoint3D (Point3D 0 0 0))
         (JointGeometry (APoint3D (Point3D 0 0 (1 / 10 ^ 9))))"
    have h: "healthState ?J = HealthyFeatureHealthState" "j_isValid ?J"
      "jointType ?J < length joint_type_list"
      "try_get_origin (geometryOrOriginOne ?J) = Inr (Some (Point3D 0 0 0))"
      "try_get_origin (geometryOrOriginTwo ?J) = Inr (Some (Point3D 0 0 (1 / 10 ^ 9)))"
      by (simp_all add: ex_joint_def try_get_origin_def joint_type_list_def)
    note z = spec [where x = "0::real"]
    note t = C3_origin_check [OF h ex_resolved_names, THEN conjunct2, THEN conjunct2,
        THEN conjunct1, THEN z, THEN z, THEN z, THEN z, THEN z,
        THEN spec [where x = "1 / 10 ^ 9 :: real"],
        THEN spec [where x = "[0, 0, 0] :: real list"], THEN z, THEN z, THEN mp]
    have "extract_joint ?J ex_self =
      Inr (ex_self\<lparr>links_by_name := [(''arm'', ex_occ ''t1'' ''arm''), (''body'', ex_occ ''t2'' ''body'')],
                  links_by_token := [(''t1'', ''arm''), (''t2'', ''body'')],
                  joints_dict := AList.update
           (rename_if_duplicate (j_name ?J) (map fst (joints_dict ex_self)))
           \<lparr>ji_name = rename_if_duplicate (j_name ?J) (map fst (joints_dict ex_self)),
            ji_parent = ''arm'', ji_child = ''body'',
            ji_type = joint_type_list ! jointType ?J,
            ji_origin = Point3D 0 0 0, ji_axis = [0, 0, 0],
            ji_upper_limit = 0, ji_lower_limit = 0\<rparr> (joints_dict ex_self)\<rparr>)"
      by (rule t) (simp add: ex_joint_def joint_type_list_def ex_self_def joint_axis_limits_def)
    then show ?thesis
      by (simp add: ex_joint_def joint_type_list_def ex_self_def rename_if_duplicate_def)
  qed
  have d: "extract_joint (ex_joint 0 OtherJointMotion PyNone PyNone) ex_self
     = Inr (ex_self\<lparr>links_by_name := [(''arm'', ex_occ ''t1'' ''arm''), (''body'', ex_occ ''t2'' ''body'')],
                  links_by_token := [(''t1'', ''arm''), (''t2'', ''body'')],
                  joints_dict := [(''hinge'', JointInfo_default ''hinge'' ''arm'' ''body'')]\<rparr>)"
    using C3_origin_check [of "ex_joint 0 OtherJointMotion PyNone PyNone"
        None None ex_self, OF _ _ _ _ _ ex_resolved_names]
    by (simp add: ex_joint_def try_get_origin_def joint_type_list_def ex_self_def
          rename_if_duplicate_def)
  have e: "eps ex_self = (1 / 10 ^ 7) / 1"
    using C3_origin_check [of "ex_joint 0 OtherJointMotion PyNone PyNone"
        None None ex_self, OF _ _ _ _ _ ex_resolved_names] ex_self_init
    by (simp add: ex_joint_def try_get_origin_def joint_type_list_def)
  from a b c d e show ?thesis by blast
qed

lemma arctan_lower:
  assumes "0 \<le> (x::real)"
  shows "x - x^3/3 + x^5/5 - x^7/7 \<le> arctan x"
proof -
  let ?f = "\<lambda>t::real. arctan t - (t - t^3/3 + t^5/5 - t^7/7)"
  have "?f 0 \<le> ?f x"
  proof (rule DERIV_nonneg_imp_nondecreasing [OF assms])
    fix t :: real
    assume "0 \<le> t" "t \<le> x"
    have d: "(?f has_real_derivative (inverse (1 + t^2) - (1 - t^2 + t^4 - t^6))) (at t)"
      by (auto intro!: derivative_eq_intros simp: field_simps)
    have p: "1 + t^2 > 0" by (simp add: add_pos_nonneg)
    then have "inverse (1 + t^2) - (1 - t^2 + t^4 - t^6) = t^8 / (1 + t^2)"
      by (simp add: field_simps power2_eq_square power4_eq_xxxx)
         (simp add: power_numeral_reduce algebra_simps)
    then have "0 \<le> inverse (1 + t^2) - (1 - t^2 + t^4 - t^6)"
      using p by simp
    with d show "\<exists>y. (?f has_real_derivative y) (at t) \<and> 0 \<le> y" by blast
  qed
  then show ?thesis by simp
qed

lemma arctan_upper:
  assumes "0 \<le> (x::real)"
  shows "arctan x \<le> x"
proof -
  let ?f = "\<lambda>t::real. t - arctan t"
  have "?f 0 \<le> ?f x"
  proof (rule DERIV_nonneg_imp_nondecreasing [OF assms])
    fix t :: real
    assume "0 \<le> t" "t \<le> x"
    have d: "(?f has_real_derivative (1 - inverse (1 + t^2))) (at t)"
      by (auto intro!: derivative_eq_intros simp: field_simps)
    have "1 + t^2 \<ge> 1" by simp
    then have "inverse (1 + t^2) \<le> 1" by (simp add: inverse_le_1_iff)
    then have "0 \<le> 1 - inverse (1 + t^2)" by simp
    with d show "\<exists>y. (?f has_real_derivative y) (at t) \<and> 0 \<le> y" by blast
  qed
  then show ?thesis by simp
qed

lemma pi_gt_314159: "3.14159 < pi"
proof -
  have a: "(1/5) - (1/5)^3/3 + (1/5)^5/5 - (1/5)^7/7 \<le> arctan (1/5::real)"
    using arctan_lower [of "1/5"] by simp
  have b: "arctan (1/239::real) \<le> 1/239"
    using arctan_upper [of "1/239"] by simp
  have "pi = 4 * (4 * arctan (1/5) - arctan (1/239))"
    using machin by simp
  with a b show ?thesis by (simp add: field_simps)
qed

lemma joint_info_record:
  assumes "joint_info s joint ty name parent child g1 g2 = Inr info" "ty \<noteq> ''fixed''"
  shows "\<exists>p1 v mx mn. g1 = Some p1 \<and> joint_axis_limits s (jointMotion joint) = Inr (v, mx, mn)
     \<and> info = \<lparr>ji_name = name, ji_parent = parent, ji_child = child,
                       ji_type = ty, ji_origin = p1, ji_axis = v,
                       ji_upper_limit = mx, ji_lower_limit = mn\<rparr>"
  using assms
  by (auto simp: joint_info_def check_origins_def split: sum.splits option.splits bool.splits)

lemma map_of_update_same: "map_of (AList.update k v al) k = Some v"
  by (simp add: update_conv')

text \<open>
  Claim C7, as amended.  The record stored for a healthy, readable non-fixed joint has:
  for a revolute motion the rotation axis and, when the reported limits are equal, the
  limits \<open>-3.14159\<close> and \<open>3.14159\<close> (the constant written in the source, which is
  strictly inside \<open>\<plusminus>\<pi>\<close>), otherwise the reported limits verbatim; for a slider
  motion the slide direction and the reported limits times the centimetre factor; for
  any other motion a zero axis and zero limits.
\<close>

theorem C7_limits:
  assumes "healthState joint = HealthyFeatureHealthState" "j_isValid joint"
    and "joint_type_list ! jointType joint \<noteq> ''fixed''"
    and "extract_joint joint self = Inr self'"
  shows "\<exists>info.
      map_of (joints_dict self') (rename_if_duplicate (j_name joint) (map fst (joints_dict self)))
        = Some info
    \<and> (case jointMotion joint of
         RevoluteJointMotion v lims \<Rightarrow>
           ji_axis info = vec_asArray v
           \<and> (if maximumValue lims = minimumValue lims
              then ji_lower_limit info = - 3.14159 \<and> ji_upper_limit info = 3.14159
              else ji_lower_limit info = minimumValue lims
                 \<and> ji_upper_limit info = maximumValue lims)
       | SliderJointMotion v lims \<Rightarrow>
           ji_axis info = vec_asArray v
           \<and> ji_lower_limit info = minimumValue lims * cm self
           \<and> ji_upper_limit info = maximumValue lims * cm self
       | OtherJointMotion \<Rightarrow>
           ji_axis info = [0, 0, 0] \<and> ji_lower_limit info = 0 \<and> ji_upper_limit info = 0)"
proof -
  from extract_joint_success [OF assms(1,2,4)] obtain g1 g2 parent child self2 info where
    ji: "joint_info self joint (joint_type_list ! jointType joint)
             (rename_if_duplicate (j_name joint) (map fst (joints_dict self)))
             parent child g1 g2 = Inr info"
    and s: "self' = self2\<lparr>joints_dict := AList.update
           (rename_if_duplicate (j_name joint) (map fst (joints_dict self))) info (joints_dict self)\<rparr>"
    by blast
  from joint_info_record [OF ji assms(3)] obtain p1 v mx mn where
    l: "joint_axis_limits self (jointMotion joint) = Inr (v, mx, mn)"
    and i: "ji_axis info = v" "ji_upper_limit info = mx" "ji_lower_limit info = mn"
    by auto
  have m: "map_of (joints_dict self') (rename_if_duplicate (j_name joint) (map fst (joints_dict self)))
        = Some info"
    by (simp add: s map_of_update_same)
  from l i have "(case jointMotion joint of
         RevoluteJointMotion v lims \<Rightarrow>
           ji_axis info = vec_asArray v
           \<and> (if maximumValue lims = minimumValue lims
              then ji_lower_limit info = - 3.14159 \<and> ji_upper_limit info = 3.14159
              else ji_lower_limit info = minimumValue lims
                 \<and> ji_upper_limit info = maximumValue lims)
       | SliderJointMotion v lims \<Rightarrow>
           ji_axis info = vec_asArray v
           \<and> ji_lower_limit info = minimumValue lims * cm self
           \<and> ji_upper_limit info = maximumValue lims * cm self
       | OtherJointMotion \<Rightarrow>
           ji_axis info = [0, 0, 0] \<and> ji_lower_limit info = 0 \<and> ji_upper_limit info = 0)"
    by (auto simp: joint_axis_limits_def split: JointMotion.splits if_splits)
  with m show ?thesis by blast
qed

lemma ex_revolute_extract:
  "extract_joint (ex_joint 1 (RevoluteJointMotion (Vector3D 0 0 1) (JointLimits True True 0 0))
       (APoint3D (Point3D 1 2 3)) two) ex_self =
     (case try_get_origin two of
        Inl e \<Rightarrow> Inl e
      | Inr g2 \<Rightarrow>
         (case check_origins ex_self (ex_joint 1 (RevoluteJointMotion (Vector3D 0 0 1) (JointLimits True True 0 0))
       (APoint3D (Point3D 1 2 3)) two) (Some (Point3D 1 2 3)) g2 of
            Inl e \<Rightarrow> Inl e
          | Inr g1 \<Rightarrow>
     Inr (ex_self\<lparr>links_by_name := [(''arm'', ex_occ ''t1'' ''arm''), (''body'', ex_occ ''t2'' ''body'')],
                  links_by_token := [(''t1'', ''arm''), (''t2'', ''body'')],
                  joints_dict := [(''hinge'',
                     \<lparr>ji_name = ''hinge'', ji_parent = ''arm'', ji_child = ''body'',
                      ji_type = ''revolute'', ji_origin = g1, ji_axis = [0, 0, 1],
                      ji_upper_limit = 3.14159, ji_lower_limit = - 3.14159\<rparr>)]\<rparr>)))"
proof (cases "try_get_origin two")
  case (Inl e)
  then show ?thesis
    by (simp add: extract_joint_def ex_joint_def joint_type_list_def Let_def try_get_origin_def)
next
  case (Inr g2)
  have o: "try_get_origin (geometryOrOriginOne (ex_joint 1 (RevoluteJointMotion (Vector3D 0 0 1) (JointLimits True True 0 0))
       (APoint3D (Point3D 1 2 3)) two)) = Inr (Some (Point3D 1 2 3))"
    by (simp add: ex_joint_def try_get_origin_def)
  have t: "try_get_origin (geometryOrOriginTwo (ex_joint 1 (RevoluteJointMotion (Vector3D 0 0 1) (JointLimits True True 0 0))
       (APoint3D (Point3D 1 2 3)) two)) = Inr g2"
    using Inr by (simp add: ex_joint_def)
  show ?thesis
    using extract_joint_processed [OF _ _ _ o t ex_resolved_names] Inr
    by (simp add: ex_joint_def joint_type_list_def joint_info_def joint_axis_limits_def
          rename_if_duplicate_def ex_self_def split: sum.split)
qed

text \<open>
  Claim C7 as stated fails: a revolute joint whose reported limits are both \<open>0\<close> is
  recorded with the limits \<open>-3.14159\<close> and \<open>3.14159\<close>, and \<open>3.14159\<close> is not \<open>\<pi>\<close>.
\<close>

theorem C7_limits_counterexample:
  "extract_joint (ex_joint 1 (RevoluteJointMotion (Vector3D 0 0 1) (JointLimits True True 0 0))
       (APoint3D (Point3D 1 2 3)) PyNone) ex_self =
     Inr (ex_self\<lparr>links_by_name := [(''arm'', ex_occ ''t1'' ''arm''), (''body'', ex_occ ''t2'' ''body'')],
                  links_by_token := [(''t1'', ''arm''), (''t2'', ''body'')],
                  joints_dict := [(''hinge'',
                     \<lparr>ji_name = ''hinge'', ji_parent = ''arm'', ji_child = ''body'',
                      ji_type = ''revolute'', ji_origin = Point3D 1 2 3, ji_axis = [0, 0, 1],
                      ji_upper_limit = 3.14159, ji_lower_limit = - 3.14159\<rparr>)]\<rparr>)
   \<and> (3.14159 :: real) \<noteq> pi \<and> (- 3.14159 :: real) \<noteq> - pi"
  using pi_gt_314159
  by (subst ex_revolute_extract) (simp add: try_get_origin_def check_origins_def)

theorem C7_limits_witness:
  "\<exists>info. map_of (joints_dict (ex_self\<lparr>links_by_name := [(''arm'', ex_occ ''t1'' ''arm''), (''body'', ex_occ ''t2'' ''body'')],
                  links_by_token := [(''t1'', ''arm''), (''t2'', ''body'')],
                  joints_dict := [(''hinge'',
                     \<lparr>ji_name = ''hinge'', ji_parent = ''arm'', ji_child = ''body'',
                      ji_type = ''revolute'', ji_origin = Point3D 1 2 3, ji_axis = [0, 0, 1],
                      ji_upper_limit = 3.14159, ji_lower_limit = - 3.14159\<rparr>)]\<rparr>)) ''hinge'' = Some info
     \<and> ji_axis info = [0, 0, 1] \<and> ji_lower_limit info = - 3.14159 \<and> ji_upper_limit info = 3.14159"
proof -
  have e: "extract_joint (ex_joint 1 (RevoluteJointMotion (Vector3D 0 0 1) (JointLimits True True 0 0))
       (APoint3D (Point3D 1 2 3)) PyNone) ex_self =
     Inr (ex_self\<lparr>links_by_name := [(''arm'', ex_occ ''t1'' ''arm''), (''body'', ex_occ ''t2'' ''body'')],
                  links_by_token := [(''t1'', ''arm''), (''t2'', ''body'')],
                  joints_dict := [(''hinge'',
                     \<lparr>ji_name = ''hinge'', ji_parent = ''arm'', ji_child = ''body'',
                      ji_type = ''revolute'', ji_origin = Point3D 1 2 3, ji_axis = [0, 0, 1],
                      ji_upper_limit = 3.14159, ji_lower_limit = - 3.14159\<rparr>)]\<rparr>)"
    by (subst ex_revolute_extract) (simp add: try_get_origin_def check_origins_def)
  show ?thesis
    using C7_limits [OF _ _ _ e]
    by (simp add: ex_joint_def joint_type_list_def rename_if_duplicate_def ex_self_def)
qed

lemma resolved_names_two:
  "resolved_names (joint\<lparr>geometryOrOriginTwo := two\<rparr>) self = resolved_names joint self"
  by (simp add: resolved_names_def)

text \<open>
  Claim C10.  For a healthy, readable non-fixed joint whose two sides both resolve an
  origin and whose extraction succeeds, the stored record has the first side's origin;
  and whatever is put in place of the second side's geometry, an extraction that succeeds
  yields the same configurator state, so the second origin decides only whether the run
  goes on, never what is stored or computed later from the state.
\<close>

theorem C10_stored_origin:
  assumes "healthState joint = HealthyFeatureHealthState" "j_isValid joint"
    and "joint_type_list ! jointType joint \<noteq> ''fixed''"
    and "try_get_origin (geometryOrOriginOne joint) = Inr (Some p1)"
    and "try_get_origin (geometryOrOriginTwo joint) = Inr (Some p2)"
    and "extract_joint joint self = Inr self'"
  shows "(\<exists>info.
      map_of (joints_dict self') (rename_if_duplicate (j_name joint) (map fst (joints_dict self)))
        = Some info \<and> ji_origin info = p1)
    \<and> (\<forall>two self''. extract_joint (joint\<lparr>geometryOrOriginTwo := two\<rparr>) self = Inr self''
          \<longrightarrow> self'' = self')"
proof -
  let ?name = "rename_if_duplicate (j_name joint) (map fst (joints_dict self))"
  let ?ty = "joint_type_list ! jointType joint"
  from extract_joint_success [OF assms(1,2,6)] assms(4) obtain g2 parent child self2 info where
    r: "resolved_names joint self = Inr (parent, child, self2)"
    and ji: "joint_info self joint ?ty ?name parent child (Some p1) g2 = Inr info"
    and s: "self' = self2\<lparr>joints_dict := AList.update ?name info (joints_dict self)\<rparr>"
    by auto
  from joint_info_record [OF ji assms(3)] obtain v mx mn where
    l: "joint_axis_limits self (jointMotion joint) = Inr (v, mx, mn)"
    and i: "info = \<lparr>ji_name = ?name, ji_parent = parent, ji_child = child,
                       ji_type = ?ty, ji_origin = p1, ji_axis = v,
                       ji_upper_limit = mx, ji_lower_limit = mn\<rparr>"
    by auto
  have a: "\<exists>info. map_of (joints_dict self') ?name = Some info \<and> ji_origin info = p1"
    using i by (simp add: s map_of_update_same)
  have b: "self'' = self'" if e: "extract_joint (joint\<lparr>geometryOrOriginTwo := two\<rparr>) self = Inr self''"
    for two self''
  proof -
    let ?j = "joint\<lparr>geometryOrOriginTwo := two\<rparr>"
    have h: "healthState ?j = HealthyFeatureHealthState" "j_isValid ?j"
      using assms(1,2) by simp_all
    from extract_joint_success [OF h e] assms(4) r obtain g2' info' where
      ji': "joint_info self ?j ?ty ?name parent child (Some p1) g2' = Inr info'"
      and s': "self'' = self2\<lparr>joints_dict := AList.update ?name info' (joints_dict self)\<rparr>"
      by (auto simp: resolved_names_two)
    from joint_info_record [OF ji' assms(3)] l have "info' = info"
      by (auto simp: i)
    with s s' show ?thesis by simp
  qed
  from a b show ?thesis by blast
qed

theorem C10_stored_origin_witness:
  "(\<exists>info. map_of (joints_dict (ex_self\<lparr>links_by_name := [(''arm'', ex_occ ''t1'' ''arm''), (''body'', ex_occ ''t2'' ''body'')],
                  links_by_token := [(''t1'', ''arm''), (''t2'', ''body'')],
                  joints_dict := [(''hinge'',
                     \<lparr>ji_name = ''hinge'', ji_parent = ''arm'', ji_child = ''body'',
                      ji_type = ''revolute'', ji_origin = Point3D 1 2 3, ji_axis = [0, 0, 1],
                      ji_upper_limit = 3.14159, ji_lower_limit = - 3.14159\<rparr>)]\<rparr>)) ''hinge'' = Some info
      \<and> ji_origin info = Point3D 1 2 3)
   \<and> extract_joint (ex_joint 1 (RevoluteJointMotion (Vector3D 0 0 1) (JointLimits True True 0 0))
       (APoint3D (Point3D 1 2 3)) (APoint3D (Point3D 1 2 (3 + 1 / 10 ^ 8)))) ex_self
     = extract_joint (ex_joint 1 (RevoluteJointMotion (Vector3D 0 0 1) (JointLimits True True 0 0))
       (APoint3D (Point3D 1 2 3)) (APoint3D (Point3D 1 2 3))) ex_self"
proof -
  let ?S = "ex_self\<lparr>links_by_name := [(''arm'', ex_occ ''t1'' ''arm''), (''body'', ex_occ ''t2'' ''body'')],
                  links_by_token := [(''t1'', ''arm''), (''t2'', ''body'')],
                  joints_dict := [(''hinge'',
                     \<lparr>ji_name = ''hinge'', ji_parent = ''arm'', ji_child = ''body'',
                      ji_type = ''revolute'', ji_origin = Point3D 1 2 3, ji_axis = [0, 0, 1],
                      ji_upper_limit = 3.14159, ji_lower_limit = - 3.14159\<rparr>)]\<rparr>"
  let ?j = "ex_joint 1 (RevoluteJointMotion (Vector3D 0 0 1) (JointLimits True True 0 0))
       (APoint3D (Point3D 1 2 3)) (APoint3D (Point3D 1 2 3))"
  let ?j' = "ex_joint 1 (RevoluteJointMotion (Vector3D 0 0 1) (JointLimits True True 0 0))
       (APoint3D (Point3D 1 2 3)) (APoint3D (Point3D 1 2 (3 + 1 / 10 ^ 8)))"
  have e: "extract_joint ?j ex_self = Inr ?S"
    by (subst ex_revolute_extract) (simp add: try_get_origin_def check_origins_points ex_self_def)
  have e': "extract_joint ?j' ex_self = Inr ?S"
    by (subst ex_revolute_extract) (simp add: try_get_origin_def check_origins_points ex_self_def)
  have u: "?j\<lparr>geometryOrOriginTwo := APoint3D (Point3D 1 2 (3 + 1 / 10 ^ 8))\<rparr> = ?j'"
    by (simp add: ex_joint_def)
  have o1: "try_get_origin (geometryOrOriginOne ?j) = Inr (Some (Point3D 1 2 3))"
    by (simp add: ex_joint_def try_get_origin_def)
  have o2: "try_get_origin (geometryOrOriginTwo ?j) = Inr (Some (Point3D 1 2 3))"
    by (simp add: ex_joint_def try_get_origin_def)
  have h: "healthState ?j = HealthyFeatureHealthState" "j_isValid ?j"
    "joint_type_list ! jointType ?j \<noteq> ''fixed''"
    by (simp_all add: ex_joint_def joint_type_list_def)
  from C10_stored_origin [OF h o1 o2 e]
  have "\<exists>info. map_of (joints_dict ?S) (rename_if_duplicate (j_name ?j) (map fst (joints_dict ex_self))) = Some info
      \<and> ji_origin info = Point3D 1 2 3" by blast
  moreover have "rename_if_duplicate (j_name ?j) (map fst (joints_dict ex_self)) = ''hinge''"
    by (simp add: ex_joint_def rename_if_duplicate_def ex_self_def)
  ultimately show ?thesis using e e' by simp
qed

section \<open>Rigid groups\<close>

lemma update_fresh: "k \<notin> fst ` set al \<Longrightarrow> AList.update k v al = al @ [(k, v)]"
  by (induction al) auto

lemma get_name_lookup:
  "map_of (links_by_token (snd (get_name oc s))) (entityToken oc) = Some (fst (get_name oc s))"
  by (simp add: get_name_def Let_def update_conv' split: option.split)

lemma get_name_mono:
  "map_of (links_by_token s) t = Some n \<Longrightarrow>
   map_of (links_by_token (snd (get_name oc s))) t = Some n"
  by (auto simp: get_name_def Let_def update_conv' split: option.split)

lemma rigid_group_step_joints:
  "joints_dict (rigid_group_step g A occ s) =
     joints_dict s @
       [(rename_if_duplicate g (map fst (joints_dict s)),
         JointInfo_default (rename_if_duplicate g (map fst (joints_dict s)))
           (fst (get_name A s)) (fst (get_name occ (snd (get_name A s)))))]"
proof -
  have "rename_if_duplicate g (map fst (joints_dict s)) \<notin> fst ` set (joints_dict s)"
    using rename_if_duplicate_fresh [of g "map fst (joints_dict s)"] by simp
  then show ?thesis
    by (simp add: rigid_group_step_def Let_def split_beta get_name_fields update_fresh)
qed

lemma rigid_group_step_tokens:
  "links_by_token (rigid_group_step g A occ s) =
     links_by_token (snd (get_name occ (snd (get_name A s))))"
  by (simp add: rigid_group_step_def Let_def split_beta)

lemma rigid_group_step_mono:
  "map_of (links_by_token s) t = Some n \<Longrightarrow>
   map_of (links_by_token (rigid_group_step g A occ s)) t = Some n"
  by (simp add: rigid_group_step_tokens get_name_mono)

lemma rigid_group_fold_mono:
  "map_of (links_by_token s) t = Some n \<Longrightarrow>
   map_of (links_by_token (fold (rigid_group_step g A) rest s)) t = Some n"
  by (induction rest arbitrary: s) (simp_all add: rigid_group_step_mono)

lemma rigid_group_step_parent:
  "map_of (links_by_token (rigid_group_step g A occ s)) (entityToken A) = Some (fst (get_name A s))"
  by (simp add: rigid_group_step_tokens get_name_mono get_name_lookup)

lemma rigid_group_step_child:
  "map_of (links_by_token (rigid_group_step g A occ s)) (entityToken occ)
     = Some (fst (get_name occ (snd (get_name A s))))"
  by (simp add: rigid_group_step_tokens get_name_lookup)

lemma rigid_group_fold:
  "\<exists>new. joints_dict (fold (rigid_group_step g A) rest s) = joints_dict s @ new
     \<and> length new = length rest
     \<and> (\<forall>i<length rest. \<exists>pA c.
          snd (new ! i) = JointInfo_default (fst (new ! i)) pA c
        \<and> map_of (links_by_token (fold (rigid_group_step g A) rest s)) (entityToken A) = Some pA
        \<and> map_of (links_by_token (fold (rigid_group_step g A) rest s)) (entityToken (rest ! i)) = Some c
        \<and> fst (new ! i) = rename_if_duplicate g (map fst (joints_dict s @ take i new)))"
proof (induction rest arbitrary: s)
  case Nil
  show ?case by simp
next
  case (Cons occ rest)
  let ?s1 = "rigid_group_step g A occ s"
  let ?k = "rename_if_duplicate g (map fst (joints_dict s))"
  let ?r = "(?k, JointInfo_default ?k (fst (get_name A s)) (fst (get_name occ (snd (get_name A s)))))"
  let ?fin = "fold (rigid_group_step g A) rest ?s1"
  from Cons.IH [of ?s1] obtain new' where
    j: "joints_dict ?fin = joints_dict ?s1 @ new'"
    and l: "length new' = length rest"
    and p: "\<forall>i<length rest. \<exists>pA c.
          snd (new' ! i) = JointInfo_default (fst (new' ! i)) pA c
        \<and> map_of (links_by_token ?fin) (entityToken A) = Some pA
        \<and> map_of (links_by_token ?fin) (entityToken (rest ! i)) = Some c
        \<and> fst (new' ! i) = rename_if_duplicate g (map fst (joints_dict ?s1 @ take i new'))"
    by blast
  have s1: "joints_dict ?s1 = joints_dict s @ [?r]" by (rule rigid_group_step_joints)
  have a: "joints_dict (fold (rigid_group_step g A) (occ # rest) s) = joints_dict s @ (?r # new')"
    using j s1 by simp
  have b: "length (?r # new') = length (occ # rest)" using l by simp
  have c: "\<exists>pA c.
          snd ((?r # new') ! i) = JointInfo_default (fst ((?r # new') ! i)) pA c
        \<and> map_of (links_by_token (fold (rigid_group_step g A) (occ # rest) s)) (entityToken A) = Some pA
        \<and> map_of (links_by_token (fold (rigid_group_step g A) (occ # rest) s)) (entityToken ((occ # rest) ! i)) = Some c
        \<and> fst ((?r # new') ! i) = rename_if_duplicate g (map fst (joints_dict s @ take i (?r # new')))"
    if i: "i < length (occ # rest)" for i
  proof (cases i)
    case 0
    have "map_of (links_by_token ?fin) (entityToken A) = Some (fst (get_name A s))"
      by (rule rigid_group_fold_mono [OF rigid_group_step_parent])
    moreover have "map_of (links_by_token ?fin) (entityToken occ)
        = Some (fst (get_name occ (snd (get_name A s))))"
      by (rule rigid_group_fold_mono [OF rigid_group_step_child])
    ultimately show ?thesis using 0 by simp
  next
    case (Suc j)
    with i have "j < length rest" by simp
    with p obtain pA c where
      "snd (new' ! j) = JointInfo_default (fst (new' ! j)) pA c"
      "map_of (links_by_token ?fin) (entityToken A) = Some pA"
      "map_of (links_by_token ?fin) (entityToken (rest ! j)) = Some c"
      "fst (new' ! j) = rename_if_duplicate g (map fst (joints_dict ?s1 @ take j new'))"
      by blast
    then show ?thesis using Suc s1 by simp
  qed
  from a b c show ?case by blast
qed

lemma fresh_keys_distinct:
  assumes "\<forall>i<length new. fst (new ! i) \<notin> set (map fst (old @ take i new))"
  shows "distinct (map fst new) \<and> set (map fst new) \<inter> set (map fst old) = {}"
proof -
  have d: "fst (new ! i) \<noteq> fst (new ! j)" if "i < j" "j < length new" for i j
  proof -
    from that assms have "fst (new ! j) \<notin> set (map fst (take j new))" by simp
    moreover have "fst (new ! i) \<in> set (map fst (take j new))"
      using that by (metis (no_types, lifting) imageI in_set_conv_nth length_take list.set_map
          min.absorb2 nat_less_le nth_take)
    ultimately show ?thesis by metis
  qed
  have "distinct (map fst new)"
    unfolding distinct_conv_nth
  proof (intro allI impI)
    fix i j assume "i < length (map fst new)" "j < length (map fst new)" "i \<noteq> j"
    then show "map fst new ! i \<noteq> map fst new ! j"
      using d [of i j] d [of j i] by (cases "i < j") auto
  qed
  moreover have "set (map fst new) \<inter> set (map fst old) = {}"
  proof -
    have f: "fst (new ! i) \<notin> set (map fst old)" if "i < length new" for i
      using assms that by simp
    have "k \<notin> set (map fst old)" if "k \<in> set (map fst new)" for k
    proof -
      from that obtain i where "i < length new" "k = fst (new ! i)"
        by (metis in_set_conv_nth length_map nth_map)
      with f show ?thesis by simp
    qed
    then show ?thesis by blast
  qed
  ultimately show ?thesis by blast
qed

text \<open>
  Claim C6.  A rigid group whose occurrence list is \<open>A # rest\<close> appends exactly
  \<open>length rest\<close> records to the joint table (one less than the number of occurrences).
  The \<open>i\<close>-th new record is a fixed record with all defaults, its parent is the link name
  registered for \<open>A\<close>, its child the link name registered for the \<open>i\<close>-th later
  occurrence, and its key and name are the group's name passed through
  \<open>rename_if_duplicate\<close> against all keys present at that moment; so the new keys are
  pairwise distinct and none overwrites an older record.
\<close>

theorem C6_rigid_group:
  assumes "g_occurrences grp = A # rest"
  shows "\<exists>new. joints_dict (rigid_group grp self) = joints_dict self @ new
     \<and> length new = length rest
     \<and> (\<forall>i<length rest. \<exists>pA c.
          snd (new ! i) = JointInfo_default (fst (new ! i)) pA c
        \<and> map_of (links_by_token (rigid_group grp self)) (entityToken A) = Some pA
        \<and> map_of (links_by_token (rigid_group grp self)) (entityToken (rest ! i)) = Some c
        \<and> fst (new ! i) =
            rename_if_duplicate (g_name grp) (map fst (joints_dict self @ take i new)))
     \<and> distinct (map fst new)
     \<and> set (map fst new) \<inter> set (map fst (joints_dict self)) = {}"
proof -
  have r: "rigid_group grp self = fold (rigid_group_step (g_name grp) A) rest self"
    using assms by (simp add: rigid_group_def)
  from rigid_group_fold [of "g_name grp" A rest self] obtain new where
    j: "joints_dict (rigid_group grp self) = joints_dict self @ new"
    and l: "length new = length rest"
    and p: "\<forall>i<length rest. \<exists>pA c.
          snd (new ! i) = JointInfo_default (fst (new ! i)) pA c
        \<and> map_of (links_by_token (rigid_group grp self)) (entityToken A) = Some pA
        \<and> map_of (links_by_token (rigid_group grp self)) (entityToken (rest ! i)) = Some c
        \<and> fst (new ! i) =
            rename_if_duplicate (g_name grp) (map fst (joints_dict self @ take i new))"
    unfolding r by blast
  have "\<forall>i<length new. fst (new ! i) \<notin> set (map fst (joints_dict self @ take i new))"
    using p l rename_if_duplicate_fresh by metis
  from fresh_keys_distinct [OF this] j l p show ?thesis by blast
qed

lemma ex_group_joints:
  "joints_dict (rigid_group ex_group ex_self) =
     [(''grp'', JointInfo_default ''grp'' ''A'' ''B''),
      (''grp0'', JointInfo_default ''grp0'' ''A'' ''C'')]"
  by (simp add: rigid_group_def ex_group_def rigid_group_step_def get_name_def ex_self_def
        ex_occ_def rename_if_duplicate_def rename_from.simps digits.simps digit_char_def Let_def)

theorem C6_rigid_group_witness:
  "(\<exists>new. joints_dict (rigid_group ex_group ex_self) = joints_dict ex_self @ new
      \<and> length new = 2 \<and> distinct (map fst new)
      \<and> snd (new ! 1) = JointInfo_default (fst (new ! 1)) ''A'' ''C'')
   \<and> joints_dict (rigid_group ex_group ex_self) =
       [(''grp'', JointInfo_default ''grp'' ''A'' ''B''),
        (''grp0'', JointInfo_default ''grp0'' ''A'' ''C'')]"
proof -
  have g: "g_occurrences ex_group = ex_occ ''tA'' ''A'' # [ex_occ ''tB'' ''B'', ex_occ ''tC'' ''C'']"
    by (simp add: ex_group_def)
  from C6_rigid_group [OF g, of ex_self] obtain new where
    n: "joints_dict (rigid_group ex_group ex_self) = joints_dict ex_self @ new"
      "length new = 2" "distinct (map fst new)"
    by auto
  have "joints_dict ex_self = []" by (simp add: ex_self_def)
  with n(1) ex_group_joints have "new = [(''grp'', JointInfo_default ''grp'' ''A'' ''B''),
        (''grp0'', JointInfo_default ''grp0'' ''A'' ''C'')]" by simp
  then have "snd (new ! 1) = JointInfo_default (fst (new ! 1)) ''A'' ''C''" by simp
  with n ex_group_joints show ?thesis by blast
qed

section \<open>The serialised joint\<close>

text \<open>
  Claim C8, as amended.  The fragment of a joint of type \<open>revolute\<close> or \<open>prismatic\<close>
  contains an axis element and a limit element with the upper and lower values and the
  default effort and velocity limits (both 100); the fragment of a joint of type
  \<open>continuous\<close> contains the axis element and no limit element.  A joint of any other
  type has neither: that is the fixed joints and also the cylindrical, pin-slot, planar
  and ball joints.
\<close>

theorem C8_axis_limit:
  "(jt_type self = ''revolute'' \<or> jt_type self = ''prismatic''
      \<or> jt_type self = ''continuous'' \<longrightarrow>
      Element ''axis'' [(''xyz'', join '' '' (map (str_float env) (jt_axis self)))] []
        \<in> set (subelements (fst (joint_xml env self))))
   \<and> (jt_type self = ''revolute'' \<or> jt_type self = ''prismatic'' \<longrightarrow>
      Element ''limit'' [(''upper'', str_float env (jt_upper_limit self)),
                          (''lower'', str_float env (jt_lower_limit self)),
                          (''effort'', str_float env 100), (''velocity'', str_float env 100)] []
        \<in> set (subelements (fst (joint_xml env self))))
   \<and> (jt_type self \<noteq> ''revolute'' \<and> jt_type self \<noteq> ''prismatic'' \<longrightarrow>
        ''limit'' \<notin> set (map tag (subelements (fst (joint_xml env self)))))
   \<and> (jt_type self \<noteq> ''revolute'' \<and> jt_type self \<noteq> ''prismatic''
        \<and> jt_type self \<noteq> ''continuous'' \<longrightarrow>
        ''axis'' \<notin> set (map tag (subelements (fst (joint_xml env self)))))"
  by (auto simp: joint_xml_def Let_def effort_limit_def vel_limit_def)

text \<open>
  Claim C8 as stated fails: a ball joint is not fixed, and its fragment has neither an
  axis nor a limit element.
\<close>

theorem C8_axis_limit_counterexample:
  "jt_type (ex_out_joint ''Ball'') \<noteq> ''fixed''
   \<and> subelements (fst (joint_xml ex_env (ex_out_joint ''Ball''))) =
       [Element ''origin'' [(''xyz'', ''0.0 0.0 0.0''), (''rpy'', ''0.0 0.0 0.0'')] [],
        Element ''parent'' [(''link'', ''base_link'')] [],
        Element ''child'' [(''link'', ''arm'')] []]
   \<and> ''axis'' \<notin> set (map tag (subelements (fst (joint_xml ex_env (ex_out_joint ''Ball'')))))
   \<and> ''limit'' \<notin> set (map tag (subelements (fst (joint_xml ex_env (ex_out_joint ''Ball'')))))"
  by (simp add: joint_xml_def Let_def ex_out_joint_def ex_str_def ex_env_def)

theorem C8_axis_limit_witness:
  "Element ''axis'' [(''xyz'', ''0.0 0.0 0.0'')] []
        \<in> set (subelements (fst (joint_xml ex_env (ex_out_joint ''revolute''))))
   \<and> Element ''limit'' [(''upper'', ''0.0''), (''lower'', ''0.0''),
                          (''effort'', ''100.0''), (''velocity'', ''100.0'')] []
        \<in> set (subelements (fst (joint_xml ex_env (ex_out_joint ''revolute''))))
   \<and> Element ''axis'' [(''xyz'', ''0.0 0.0 0.0'')] []
        \<in> set (subelements (fst (joint_xml ex_env (ex_out_joint ''continuous''))))
   \<and> ''limit'' \<notin> set (map tag (subelements (fst (joint_xml ex_env (ex_out_joint ''continuous'')))))
   \<and> ''limit'' \<notin> set (map tag (subelements (fst (joint_xml ex_env (ex_out_joint ''fixed'')))))
   \<and> ''axis'' \<notin> set (map tag (subelements (fst (joint_xml ex_env (ex_out_joint ''fixed'')))))"
  using C8_axis_limit [of "ex_out_joint ''revolute''" ex_env]
    C8_axis_limit [of "ex_out_joint ''continuous''" ex_env]
    C8_axis_limit [of "ex_out_joint ''fixed''" ex_env]
  by (simp add: ex_out_joint_def ex_str_def ex_env_def)

section \<open>The mass of a link\<close>

lemma C5_flat: "get_flat_body C5_tree = []"
  by (simp add: get_flat_body_def C5_tree_def get_all_children_def set_update_def childs_of_def)

lemma C5_flat_leaf: "get_flat_body C5_leaf = bRepBodies C5_arm"
  by (simp add: get_flat_body_def C5_leaf_def get_all_children_def set_update_def childs_of_def)

text \<open>
  Claim C5 fails on the code.  The occurrence \<open>arm\<close> owns a visible body of mass 3 and a
  hidden body of mass 2, and the host reports the mass 5.  When \<open>arm\<close> has a child
  occurrence, the flat body list is empty and the reported mass stays 5; the same
  occurrence without children gets the mass 3 that the claim states.
\<close>

theorem C5_hidden_body_mass_kept:
  "get_inertia_mass (ex_self\<lparr>component_map := [(''t_arm'', C5_tree)]\<rparr>) C5_arm = Inr 5
   \<and> get_inertia_mass (ex_self\<lparr>component_map := [(''t_arm'', C5_leaf)]\<rparr>) C5_arm = Inr 3"
  by (simp add: get_inertia_mass_def C5_flat C5_flat_leaf)
     (simp add: C5_arm_def ex_occ_def ex_body_def)

section \<open>Material resolution\<close>

text \<open>
  Claim C9 fails on the code.  An occurrence without an appearance of its own, with one
  body that has no appearance, and whose component material has an appearance with a
  colour: the body branch is taken, finds nothing, and the material branch is not tried,
  so the occurrence gets the default silver.  The same occurrence without bodies gets
  the material's colour.
\<close>

theorem C9_material_not_consulted:
  "get_appearance (C9_occ [ex_body ''shell'' True 3]) = None
   \<and> material_dict (materials ex_env
        (ex_self\<lparr>component_map := [(''t_arm'', Hierarchy (C9_occ [ex_body ''shell'' True 3]) [])]\<rparr>))
      = [(''arm'', ''silver_default'')]
   \<and> get_appearance (C9_occ []) = Some (''Steel'', ColorProperty 51 102 153 255)
   \<and> material_dict (materials ex_env
        (ex_self\<lparr>component_map := [(''t_arm'', Hierarchy (C9_occ []) [])]\<rparr>))
      = [(''arm'', ''Steel'')]"
  by (simp add: get_appearance_def C9_occ_def ex_occ_def ex_body_def ex_steel_def materials_def
        materials_step_def iterate_through_occurrences_def ex_env_def ex_self_def get_name_def
        rename_if_duplicate_def Let_def)

section \<open>The kinematic traversal\<close>


lemma visit_joint_new_raises:
  assumes "examine_edge env grounded_occ occ_name joint_name self = Inr (Some (self2, d))"
  shows "\<exists>e. visit_joint env grounded_occ occ_name joint_name (self, nb) = Inl e"
proof (cases "add_link env (d_child_occ d) self2")
  case (Inl e)
  with assms show ?thesis by (simp add: visit_joint_def)
next
  case (Inr s)
  with add_link_raises show ?thesis by blast
qed

lemma build_raises: "\<exists>e. build env self = Inl e"
proof (cases "build_tables env self")
  case (Inl e)
  then show ?thesis by (simp add: build_def)
next
  case (Inr self1)
  show ?thesis
  proof (cases "base_link self1")
    case None
    with Inr show ?thesis by (simp add: build_def)
  next
    case (Some bl)
    show ?thesis
    proof (cases "add_link env bl self1")
      case (Inl e)
      with Inr Some show ?thesis by (simp add: build_def)
    next
      case (Inr s)
      with add_link_raises show ?thesis by blast
    qed
  qed
qed










lemma C4_scene:
  "get_scene_configuration C4_root ex_self =
     ex_self\<lparr>component_map := [(''t_base'', Hierarchy C4_base []), (''t_lonely'', Hierarchy C4_lonely [])],
             body_mapper := [(''t_base'', [ex_body ''plate'' True 1]),
                             (''t_lonely'', [ex_body ''block'' True 1])]\<rparr>"
  by (simp add: get_scene_configuration_def C4_root_def get_all_children_def set_update_def
        get_sub_bodies_def dd_extend_def dd_get_def C4_base_def C4_lonely_def ex_occ_def ex_body_def)

lemma C4_flat: "get_flat_body (Hierarchy C4_base []) = bRepBodies C4_base"
  by (simp add: get_flat_body_def get_all_children_def set_update_def childs_of_def)

lemma C4_tables:
  "tables_of ex_env [] [] (get_scene_configuration C4_root (ex_self\<lparr>c_name := nm\<rparr>)) =
     Inr (C4_state nm)"
proof -
  have s: "get_scene_configuration C4_root (ex_self\<lparr>c_name := nm\<rparr>)
      = (get_scene_configuration C4_root ex_self)\<lparr>c_name := nm\<rparr>"
    by (simp add: get_scene_configuration_def)
  show ?thesis
    unfolding s C4_scene
    by (simp add: tables_of_def base_def iterate_through_occurrences_def ex_self_def
        joints_extraction_def rigid_groups_def materials_def materials_step_def
        get_appearance_def get_name_def rename_if_duplicate_def ex_env_def Let_def
        build_tables_def body_dict_step_def dd_get_def dd_extend_def C4_state_def
        C4_base_def C4_lonely_def ex_occ_def ex_body_def)
qed

lemma parse_after_tables:
  "tables_of env js gs self = Inr s \<Longrightarrow>
   parse env js gs self =
     (case base_link s of
        None \<Rightarrow> Inl AssertionError
      | Some bl \<Rightarrow>
          (case add_link env bl s of
             Inl e \<Rightarrow> Inl e
           | Inr s2 \<Rightarrow>
               (case bfs_loop env (occurrences_of (joints_dict s)) [''base_link'']
                       [''base_link''] s2 of
                  Inl e \<Rightarrow> Inl e
                | Inr (s3, g) \<Rightarrow> sanity_check s3 g)))"
  by (auto simp: parse_def tables_of_def build_def split: sum.splits)

lemma C4_add_link: "add_link ex_env C4_base (C4_state nm) = Inl TypeError"
  by (simp add: add_link_def get_inertia_def get_name_def get_inertia_mass_def C4_flat
        C4_state_def ex_env_def)
     (simp add: C4_base_def ex_occ_def)

text \<open>
  Claim C4 fails on the code.  The assembly \<open>robot\<close> has a grounded occurrence \<open>base\<close>
  and an isolated occurrence \<open>lonely\<close>; both are visible and own a visible body, and
  there is no joint and no rigid group.  The run raises \<open>TypeError\<close> when it builds the
  link of the base (line 619), before the traversal and the final check, so no error
  that lists \<open>lonely\<close> is produced.  The final check itself, applied to the tables the
  run has built by then and to the grounded set \<open>base_link\<close>, passes: it asks whether
  \<open>body_dict\<close> has an entry under the name of the root component, and it has none.  With
  the root component named \<open>lonely\<close> the check refuses the same tables, and lists the
  isolated occurrence as unreachable, since every occurrence has been given a link name
  by that time.
\<close>

theorem C4_isolated_occurrence_not_reported:
  "parse ex_env [] [] (get_scene_configuration C4_root ex_self) = Inl TypeError
   \<and> (case tables_of ex_env [] [] (get_scene_configuration C4_root ex_self) of
        Inl e \<Rightarrow> False
      | Inr s \<Rightarrow> sanity_check s [''base_link''] = Inr s)
   \<and> (case tables_of ex_env [] []
              (get_scene_configuration C4_root (ex_self\<lparr>c_name := ''lonely''\<rparr>)) of
        Inl e \<Rightarrow> False
      | Inr s \<Rightarrow> sanity_check s [''base_link''] = Inl (FatalNotIncluded [] [''lonely'']))"
proof -
  have n: "ex_self\<lparr>c_name := ''robot''\<rparr> = ex_self" by (simp add: ex_self_def)
  have t: "tables_of ex_env [] [] (get_scene_configuration C4_root ex_self)
      = Inr (C4_state ''robot'')"
    using C4_tables [of "''robot''"] by (simp only: n)
  have bl: "base_link (C4_state ''robot'') = Some C4_base" by (simp add: C4_state_def)
  have a: "parse ex_env [] [] (get_scene_configuration C4_root ex_self) = Inl TypeError"
    by (simp add: parse_after_tables [OF t] bl C4_add_link)
  have b: "sanity_check (C4_state ''robot'') [''base_link''] = Inr (C4_state ''robot'')"
    by (simp add: sanity_check_def C4_state_def ex_self_def)
  have c: "sanity_check (C4_state ''lonely'') [''base_link'']
      = Inl (FatalNotIncluded [] [''lonely''])"
    by (simp add: sanity_check_def C4_state_def ex_self_def iterate_through_occurrences_def
          C4_base_def C4_lonely_def ex_occ_def)
  from a b c show ?thesis by (simp add: t C4_tables)
qed





section \<open>Where the traversal examines an edge\<close>

text \<open>
  A joint listed under an occurrence name has that name as its declared parent or child,
  so an edge is examined only from one of its two ends.
\<close>

lemma dd_get_append:
  "dd_get (dd_append k v d) k' = (if k' = k then dd_get d k @ [v] else dd_get d k')"
  by (simp add: dd_get_def dd_append_def update_conv')

lemma occurrences_fold:
  assumes "n \<in> set (dd_get (fold (\<lambda>(joint_name, joint_info) occurrences.
             dd_append (ji_child joint_info) joint_name
               (dd_append (ji_parent joint_info) joint_name occurrences)) d acc) k)"
  shows "n \<in> set (dd_get acc k)
       \<or> (\<exists>ji. (n, ji) \<in> set d \<and> (k = ji_parent ji \<or> k = ji_child ji))"
  using assms
proof (induction d arbitrary: acc)
  case Nil
  then show ?case by simp
next
  case (Cons p d)
  obtain jn ji where p: "p = (jn, ji)" by (cases p)
  from Cons.prems have "n \<in> set (dd_get (fold (\<lambda>(joint_name, joint_info) occurrences.
             dd_append (ji_child joint_info) joint_name
               (dd_append (ji_parent joint_info) joint_name occurrences)) d
          (dd_append (ji_child ji) jn (dd_append (ji_parent ji) jn acc))) k)"
    by (simp add: p)
  from Cons.IH [OF this] show ?case
    by (auto simp: p dd_get_append split: if_splits)
qed

lemma occurrences_incident:
  assumes "joint_name \<in> set (dd_get (occurrences_of d) occ_name)"
    and "distinct (map fst d)"
  shows "\<exists>joint. map_of d joint_name = Some joint
           \<and> (occ_name = ji_parent joint \<or> occ_name = ji_child joint)"
proof -
  from occurrences_fold [OF assms(1) [unfolded occurrences_of_def]]
  obtain ji where "(joint_name, ji) \<in> set d" "occ_name = ji_parent ji \<or> occ_name = ji_child ji"
    by (auto simp: dd_get_def)
  with assms(2) show ?thesis by (auto simp: map_of_eq_Some_iff)
qed

text \<open>
  The final check passes whenever \<open>body_dict\<close> has no entry under the name of the root
  component, whatever the occurrences and the grounded set are.
\<close>

lemma sanity_check_skipped:
  "map_of (body_dict self) (c_name self) = None \<Longrightarrow> sanity_check self grounded_occ = Inr self"
  by (simp add: sanity_check_def)

text \<open>Every name of the next frontier is grounded when its pass starts.\<close>

lemma frontier_grounded:
  "set new_boundary \<subseteq> set (set_update grounded_occ new_boundary)"
  by (simp add: set_set_update)

end
